theory Spec2Isabelle
  imports Complex_Main
begin

section \<open>Common values\<close>

text \<open>
  A raised Python exception is a value. \<open>ValueError\<close> and \<open>ZeroDivisionError\<close> are the
  two classes the code raises itself; \<open>Exception\<close> stands for whatever a library call
  (aiohttp, asyncpg) raises, with its \<open>str(e)\<close>. All three are subclasses of Python's
  \<open>Exception\<close>, so an \<open>except Exception\<close> clause catches each of them.
\<close>

datatype exn = ValueError string | ZeroDivisionError | Exception string

fun exn_str :: "exn \<Rightarrow> string" where
  "exn_str (ValueError m) = m"
| "exn_str ZeroDivisionError = ''division by zero''"
| "exn_str (Exception m) = m"

text \<open>\<open>datetime.utcnow()\<close> is read from the environment; a time stamp is a number.\<close>

type_synonym timestamp = nat

text \<open>
  What one call of \<open>log_audit_action\<close> meets at the database: the three awaited calls
  \<open>asyncpg.connect\<close>, \<open>conn.execute\<close> (the INSERT) and \<open>conn.close\<close> run in this
  order, and each may raise. When \<open>conn.close\<close> raises, the INSERT has already run.
\<close>

datatype db_write = WriteOk | ConnectFailed exn | ExecuteFailed exn | CloseFailed exn

text \<open>
  The same for \<open>get_recent_audit_logs\<close>: \<open>asyncpg.connect\<close>, \<open>conn.fetch\<close> and
  \<open>conn.close\<close>.
\<close>

datatype db_read = ReadOk | ReadConnectFailed exn | FetchFailed exn | ReadCloseFailed exn

text \<open>
  What one operation meets outside the process:
  \<open>http_get url\<close> is what \<open>session.get(url, timeout=...)\<close> does (the response's status
  code, or the exception raised: connection refused, timeout, ...), \<open>init_db_result\<close> and
  \<open>default_data_result\<close> are the exception \<open>init_db\<close> and \<open>ensure_default_data\<close>
  raise, if any, \<open>db_query\<close> is the outcome of the two queries of
  \<open>check_database_health\<close> (\<open>len(tables)\<close> and \<open>user_count\<close>), \<open>audit_write\<close> is
  what the operation's own call of \<open>log_audit_action\<close> meets, \<open>alert_write\<close> what the
  call inside \<open>trigger_critical_alert\<close> meets, and \<open>audit_read\<close> what
  \<open>get_recent_audit_logs\<close> meets. One \<open>utcnow\<close> stands for every reading of the
  clock during the operation.
\<close>

record environment =
  http_get :: "string \<Rightarrow> exn + int"
  init_db_result :: "exn option"
  db_query :: "exn + (nat \<times> int)"
  default_data_result :: "exn option"
  utcnow :: timestamp
  audit_write :: db_write
  alert_write :: db_write
  audit_read :: db_read

section \<open>system\_integration.py\<close>

text \<open>One entry of \<open>SystemIntegration.services\<close>: \<open>{"url": ..., "critical": ...}\<close>.\<close>

record service_config =
  cfg_url :: string
  cfg_critical :: bool

text \<open>
  The dictionary \<open>check_service_health\<close> returns. The success branch has the key
  \<open>response_code\<close> and no \<open>error\<close>; the exception branch has \<open>error\<close> and no
  \<open>response_code\<close>.
\<close>

record service_check =
  chk_service :: string
  chk_url :: string
  chk_status :: string
  chk_critical :: bool
  chk_response_code :: "int option"
  chk_error :: "string option"

text \<open>The dictionary \<open>check_database_health\<close> returns.\<close>

record db_health =
  db_status :: string
  db_tables :: "nat option"
  db_user_count :: "int option"
  db_connection :: "string option"
  db_error :: "string option"

text \<open>\<open>SystemIntegration.__init__\<close>: the registry, in the dictionary's insertion order.\<close>

definition services :: "(string \<times> service_config) list" where
  "services =
    [(''main_app'', \<lparr>cfg_url = ''http://localhost:5000'', cfg_critical = True\<rparr>),
     (''api_gateway'', \<lparr>cfg_url = ''http://localhost:8080/graphql'', cfg_critical = True\<rparr>),
     (''user_service'', \<lparr>cfg_url = ''http://localhost:8001/api/v1/health'', cfg_critical = True\<rparr>),
     (''payment_service'', \<lparr>cfg_url = ''http://localhost:8003/api/payments/health'', cfg_critical = True\<rparr>),
     (''messaging_service'', \<lparr>cfg_url = ''http://localhost:8004/api/messages/health'', cfg_critical = False\<rparr>),
     (''streaming_service'', \<lparr>cfg_url = ''http://localhost:8005'', cfg_critical = False\<rparr>),
     (''ai_service'', \<lparr>cfg_url = ''http://localhost:8006'', cfg_critical = False\<rparr>),
     (''sso_service'', \<lparr>cfg_url = ''http://localhost:8011'', cfg_critical = False\<rparr>),
     (''payment_orchestration'', \<lparr>cfg_url = ''http://localhost:8016'', cfg_critical = True\<rparr>),
     (''recommendation_service'', \<lparr>cfg_url = ''http://localhost:8017'', cfg_critical = False\<rparr>)]"

text \<open>
  \<open>check_service_health\<close>: the whole body is one \<open>try\<close>; the handler catches every
  \<open>Exception\<close> and keeps the first 100 characters of its text (\<open>str(e)[:100]\<close>).
\<close>

definition check_service_health :: "string \<Rightarrow> service_config \<Rightarrow> (exn + int) \<Rightarrow> service_check" where
  "check_service_health name config outcome =
    (case outcome of
       Inr code \<Rightarrow>
         \<lparr>chk_service = name, chk_url = cfg_url config,
          chk_status = (if code = 200 then ''healthy'' else ''unhealthy''),
          chk_critical = cfg_critical config,
          chk_response_code = Some code, chk_error = None\<rparr>
     | Inl e \<Rightarrow>
         \<lparr>chk_service = name, chk_url = cfg_url config,
          chk_status = ''down'',
          chk_critical = cfg_critical config,
          chk_response_code = None, chk_error = Some (take 100 (exn_str e))\<rparr>)"

text \<open>\<open>check_database_health\<close>: again one \<open>try\<close> around everything.\<close>

definition check_database_health :: "(exn + (nat \<times> int)) \<Rightarrow> db_health" where
  "check_database_health q =
    (case q of
       Inr (tables, user_count) \<Rightarrow>
         \<lparr>db_status = ''healthy'', db_tables = Some tables, db_user_count = Some user_count,
          db_connection = Some ''active'', db_error = None\<rparr>
     | Inl e \<Rightarrow>
         \<lparr>db_status = ''unhealthy'', db_tables = None, db_user_count = None,
          db_connection = None, db_error = Some (take 100 (exn_str e))\<rparr>)"

text \<open>
  The messages of \<open>generate_recommendations\<close>. Each starts with a non-ASCII marker; the
  markers are kept as the bytes the source file holds for them.
\<close>

definition marker_alarm :: string where
  "marker_alarm = [CHR 0xEF, CHR 0xA3, CHR 0xBF, CHR 0xC3, CHR 0xBC, CHR 0xC3, CHR 0xB6, CHR 0xC2, CHR 0xAE]"

definition marker_warning :: string where
  "marker_warning = [CHR 0xE2, CHR 0x80, CHR 0x9A, CHR 0xC3, CHR 0xB6, CHR 0xE2, CHR 0x80, CHR 0xA0,
     CHR 0xC3, CHR 0x94, CHR 0xE2, CHR 0x88, CHR 0x8F, CHR 0xC3, CHR 0xA8]"

definition marker_ok :: string where
  "marker_ok = [CHR 0xE2, CHR 0x80, CHR 0x9A, CHR 0xC3, CHR 0xBA, CHR 0xC3, CHR 0x96]"

definition critical_down_message :: "service_check \<Rightarrow> string" where
  "critical_down_message s =
     marker_alarm @ '' CRITICAL: '' @ chk_service s @ '' is down - system functionality impaired''"

definition warning_down_message :: "service_check \<Rightarrow> string" where
  "warning_down_message s =
     marker_warning @ '' Warning: '' @ chk_service s @ '' is down - some features unavailable''"

definition database_message :: string where
  "database_message = marker_alarm @ '' Database connection issues detected - check DATABASE_URL''"

definition all_operational_message :: string where
  "all_operational_message = marker_ok @ '' All services operational - system ready for production''"

definition operating_normally_message :: string where
  "operating_normally_message = marker_ok @ '' System operating normally''"

text \<open>The message appended for one element of \<open>down_services\<close>.\<close>

definition down_message :: "service_check \<Rightarrow> string" where
  "down_message s = (if chk_critical s then critical_down_message s else warning_down_message s)"

text \<open>
  \<open>generate_recommendations\<close>: the three blocks append to \<open>recommendations\<close> in turn,
  and the last line replaces an empty list by the one default message.
\<close>

definition generate_recommendations :: "service_check list \<Rightarrow> db_health \<Rightarrow> string list" where
  "generate_recommendations service_checks dbh =
    (let down_services = filter (\<lambda>s. chk_status s = ''down'') service_checks;
         recs1 = map down_message down_services;
         recs2 = recs1 @ (if db_status dbh \<noteq> ''healthy'' then [database_message] else []);
         healthy_count = length (filter (\<lambda>s. chk_status s = ''healthy'') service_checks);
         recommendations =
           recs2 @ (if healthy_count = length service_checks then [all_operational_message] else [])
     in if recommendations \<noteq> [] then recommendations else [operating_normally_message])"

text \<open>
  Python's \<open>float\<close> is IEEE 754 binary64, and every operation returns the
  representable number nearest to the exact result, a tie going to the even
  significand. A float is modelled by the real number it stands for, and the rounding
  of an exact result by \<open>float64\<close>. \<open>binade x\<close> is the exponent \<open>e\<close> with
  \<open>2^e \<le> x < 2^(e+1)\<close> of a positive \<open>x\<close>; the floats of that binade are the
  multiples of \<open>spacing x\<close>, 52 binary places below the exponent, and below the least
  normal exponent -1022 the spacing stays that of the subnormal numbers. Overflow
  (magnitudes from \<open>2^1024\<close> on) is outside the model; the values below are at most 100.
\<close>

definition round_half_even :: "real \<Rightarrow> int" where
  "round_half_even x =
    (let f = \<lfloor>x\<rfloor>; d = x - of_int f
     in if d < 1 / 2 then f else if 1 / 2 < d then f + 1 else if even f then f else f + 1)"

fun floor_log2 :: "nat \<Rightarrow> nat" where
  "floor_log2 n = (if n < 2 then 0 else Suc (floor_log2 (n div 2)))"

declare floor_log2.simps [simp del]

definition binade :: "real \<Rightarrow> int" where
  "binade x =
    (if 1 \<le> x then int (floor_log2 (nat \<lfloor>x\<rfloor>))
     else - int (Suc (floor_log2 (nat (\<lceil>1 / x\<rceil> - 1)))))"

definition pow2 :: "int \<Rightarrow> real" where
  "pow2 k = (if 0 \<le> k then 2 ^ nat k else 1 / 2 ^ nat (- k))"

definition spacing :: "real \<Rightarrow> real" where
  "spacing x = pow2 (max (binade x) (- 1022) - 52)"

definition float64 :: "real \<Rightarrow> real" where
  "float64 x =
    (if x = 0 then 0
     else if 0 < x then of_int (round_half_even (x / spacing x)) * spacing x
     else - (of_int (round_half_even (- x / spacing (- x))) * spacing (- x)))"

text \<open>
  Python's \<open>round(x, 2)\<close> on a float: the exact value of \<open>x\<close> is rounded to the
  nearest hundredth, a tie going to the even neighbour, and the result is the float
  nearest to that decimal number.
\<close>

definition py_round2 :: "real \<Rightarrow> real" where
  "py_round2 x = float64 (of_int (round_half_even (x * 100)) / 100)"

text \<open>
  The expression \<open>round(healthy_services / total_services * 100, 2)\<close> of
  \<open>run_full_health_check\<close>. Python's \<open>/\<close> raises \<open>ZeroDivisionError\<close> when the divisor
  is 0; the source has no test of \<open>total_services\<close> before it divides. The quotient
  of two integers is the float nearest to the exact quotient; the product with 100 is
  rounded again; then comes \<open>round\<close>.
\<close>

definition services_percentage :: "nat \<Rightarrow> nat \<Rightarrow> exn + real" where
  "services_percentage healthy_services total_services =
    (if total_services = 0 then Inl ZeroDivisionError
     else Inr (py_round2
                 (float64 (float64 (of_nat healthy_services / of_nat total_services) * 100))))"

text \<open>The \<open>all(...)\<close> of \<open>run_full_health_check\<close>.\<close>

definition critical_services_up :: "service_check list \<Rightarrow> bool" where
  "critical_services_up service_checks =
    list_all (\<lambda>s. (chk_status s = ''healthy'' \<or> chk_status s = ''down'')
                   \<and> \<not> (chk_critical s \<and> chk_status s = ''down'')) service_checks"

record services_summary =
  sv_healthy :: nat
  sv_total :: nat
  sv_percentage :: real
  sv_details :: "service_check list"

record ts3_report =
  r_timestamp :: timestamp
  r_overall_status :: string
  r_services :: services_summary
  r_database :: db_health
  r_recommendations :: "string list"

text \<open>
  The part of \<open>run_full_health_check\<close> under the comment \<open>Calculate overall health\<close>: from
  the list of results and the database health to the returned dictionary.
\<close>

definition calculate_overall_health ::
  "timestamp \<Rightarrow> service_check list \<Rightarrow> db_health \<Rightarrow> exn + ts3_report" where
  "calculate_overall_health now service_checks dbh =
    (let healthy_services = length (filter (\<lambda>s. chk_status s = ''healthy'') service_checks);
         total_services = length service_checks
     in case services_percentage healthy_services total_services of
          Inl e \<Rightarrow> Inl e
        | Inr pct \<Rightarrow>
            Inr \<lparr>r_timestamp = now,
                 r_overall_status =
                   (if critical_services_up service_checks then ''operational'' else ''degraded''),
                 r_services = \<lparr>sv_healthy = healthy_services, sv_total = total_services,
                                sv_percentage = pct, sv_details = service_checks\<rparr>,
                 r_database = dbh,
                 r_recommendations = generate_recommendations service_checks dbh\<rparr>)"

text \<open>
  The loop of \<open>run_full_health_check\<close> over the registry \<open>svcs\<close> (\<open>self.services\<close>),
  which appends one result for each entry.
\<close>

definition check_services :: "environment \<Rightarrow> (string \<times> service_config) list \<Rightarrow> service_check list" where
  "check_services env svcs =
     map (\<lambda>(name, config). check_service_health name config (http_get env (cfg_url config))) svcs"

text \<open>
  \<open>run_full_health_check\<close>: \<open>init_db\<close> and \<open>ensure_default_data\<close> are outside any
  \<open>try\<close>, so what they raise leaves the function.
\<close>

definition run_full_health_check ::
  "environment \<Rightarrow> (string \<times> service_config) list \<Rightarrow> exn + ts3_report" where
  "run_full_health_check env svcs =
    (case init_db_result env of
       Some e \<Rightarrow> Inl e
     | None \<Rightarrow>
        (let service_checks = check_services env svcs;
             dbh = check_database_health (db_query env)
         in case default_data_result env of
              Some e \<Rightarrow> Inl e
            | None \<Rightarrow> calculate_overall_health (utcnow env) service_checks dbh))"

section \<open>fanz\_central\_command.py\<close>

text \<open>The dataclass \<open>FanzPlatform\<close>.\<close>

record FanzPlatform =
  p_platform_id :: string
  p_name :: string
  p_url :: string
  p_status :: string
  p_last_health_check :: "timestamp option"
  p_critical :: bool

text \<open>One value of the dictionary \<open>platform_health\<close>.\<close>

record platform_health =
  ph_name :: string
  ph_status :: string
  ph_critical :: bool
  ph_last_check :: "timestamp option"

text \<open>The dictionary \<open>run_ecosystem_health_check\<close> returns.\<close>

record health_report =
  hr_timestamp :: timestamp
  hr_ecosystem_status :: string
  hr_platforms :: "(string \<times> platform_health) list"
  hr_taskspark3_services :: ts3_report
  hr_critical_issues :: "string list"
  hr_payment_processors :: "(string \<times> bool \<times> bool) list"

text \<open>
  The dictionaries \<open>check_payment_processor_health\<close> and
  \<open>get_moderation_queue_stats\<close> return.
\<close>

record processor_health =
  pr_processor :: string
  pr_healthy :: bool
  pr_response_time :: int

record queue_stats =
  qs_pending_reviews :: int
  qs_processed_today :: int
  qs_average_review_time :: real

text \<open>
  The \<open>metadata\<close> argument of \<open>log_audit_action\<close>, one constructor for each shape a
  caller passes: none (stored as \<open>{}\<close>), a health report, the alert data of
  \<open>trigger_critical_alert\<close> (time stamp and issues; its other two entries are
  constants), \<open>{"reason": ...}\<close>, \<open>{"enabled": ..., "reason": ...}\<close>, the health of
  a payment processor, and the alert data of \<open>trigger_moderation_alert\<close> (time stamp
  and queue statistics; its \<open>alert_type\<close> is a constant).
\<close>

datatype metadata =
    NoMetadata
  | HealthReport health_report
  | AlertData timestamp "string list"
  | StopReason string
  | FlagChange bool string
  | ProcessorHealth processor_health
  | ModerationAlertData timestamp queue_stats

text \<open>A row of the table \<open>audit_logs\<close>.\<close>

record audit_row =
  a_actor_id :: string
  a_action :: string
  a_target_type :: "string option"
  a_target_id :: "string option"
  a_metadata :: metadata
  a_created_at :: timestamp

text \<open>
  A call of \<open>self.logger\<close>: the level and the message. \<open>CriticalAlert issues\<close> is
  \<open>logger.critical\<close> with the message of \<open>trigger_critical_alert\<close>, which formats the
  list \<open>issues\<close>; \<open>ModerationAlert queue_stats\<close> is \<open>logger.warning\<close> with the
  message of \<open>trigger_moderation_alert\<close>, which formats the statistics.
\<close>

datatype log_record =
    Info string
  | Error string
  | Critical string
  | CriticalAlert "string list"
  | ModerationAlert queue_stats

text \<open>The values of \<open>feature_flags\<close> and \<open>emergency_stops\<close>.\<close>

record flag_value =
  fv_enabled :: bool
  fv_set_at :: timestamp
  fv_reason :: string

record stop_value =
  es_stopped_at :: timestamp
  es_reason :: string
  es_stopped_by :: string

text \<open>
  The state the operations act on: the attributes of \<open>FanzCentralCommand\<close>
  (\<open>platforms\<close>, \<open>system_integration.services\<close>, \<open>payment_processors\<close>,
  \<open>feature_flags\<close>, \<open>emergency_stops\<close>), and around it the table \<open>audit_logs\<close> of the
  database in insertion order, the records written to \<open>self.logger\<close>, and the seconds
  spent in \<open>asyncio.sleep\<close> by the loop that is run.
\<close>

record command_state =
  platforms :: "(string \<times> FanzPlatform) list"
  system_integration_services :: "(string \<times> service_config) list"
  payment_processors :: "(string \<times> bool \<times> bool) list"
  feature_flags :: "string \<rightharpoonup> flag_value"
  emergency_stops :: "string \<rightharpoonup> stop_value"
  audit_logs :: "audit_row list"
  logger :: "log_record list"
  slept :: nat

text \<open>\<open>FanzCentralCommand.__init__\<close>, with an empty table and nothing logged yet.\<close>

definition new_platform :: "string \<Rightarrow> string \<Rightarrow> string \<Rightarrow> bool \<Rightarrow> string \<times> FanzPlatform" where
  "new_platform pid nm u c =
     (pid, \<lparr>p_platform_id = pid, p_name = nm, p_url = u, p_status = ''unknown'',
            p_last_health_check = None, p_critical = c\<rparr>)"

definition init_state :: command_state where
  "init_state =
    \<lparr>platforms =
       [new_platform ''fanzdash'' ''FanzDash Control'' ''http://localhost:3000'' True,
        new_platform ''fanzfinance'' ''FanzFinance OS'' ''http://localhost:8010'' True,
        new_platform ''fanzelitetube'' ''FanzEliteTubeV1'' ''http://localhost:8001'' True,
        new_platform ''fanzmeet'' ''FanzMeetV1'' ''http://localhost:8002'' True,
        new_platform ''fanzcommerce'' ''FanzCommerceV1'' ''http://localhost:8003'' True,
        new_platform ''fanzhubvault'' ''FanzHubVaultV1'' ''http://localhost:8004'' True,
        new_platform ''fanzprotect'' ''FanzProtect'' ''http://localhost:8005'' True,
        new_platform ''fanzsocial'' ''FanzSocial'' ''http://localhost:8006'' False],
     system_integration_services = services,
     payment_processors =
       [(''ccbill'', True, True), (''paxum'', True, False), (''segpay'', True, False),
        (''crypto_usdc'', True, False)],
     feature_flags = Map.empty,
     emergency_stops = Map.empty,
     audit_logs = [],
     logger = [],
     slept = 0\<rparr>"

text \<open>
  \<open>log_audit_action\<close>: the body is one \<open>try\<close>; the handler logs and returns. A failure
  of \<open>connect\<close> or of \<open>execute\<close> leaves the table as it was; a failure of \<open>close\<close>
  comes after the INSERT.
\<close>

definition audit_failed :: "exn \<Rightarrow> log_record" where
  "audit_failed e = Error (''Audit logging failed: '' @ exn_str e)"

definition log_audit_action ::
  "db_write \<Rightarrow> timestamp \<Rightarrow> string \<Rightarrow> string \<Rightarrow> string option \<Rightarrow> string option \<Rightarrow> metadata
     \<Rightarrow> command_state \<Rightarrow> command_state" where
  "log_audit_action w now actor_id action target_type target_id md s =
    (let row = \<lparr>a_actor_id = actor_id, a_action = action, a_target_type = target_type,
                 a_target_id = target_id, a_metadata = md, a_created_at = now\<rparr>
     in case w of
          WriteOk \<Rightarrow> s\<lparr>audit_logs := audit_logs s @ [row]\<rparr>
        | ConnectFailed e \<Rightarrow> s\<lparr>logger := logger s @ [audit_failed e]\<rparr>
        | ExecuteFailed e \<Rightarrow> s\<lparr>logger := logger s @ [audit_failed e]\<rparr>
        | CloseFailed e \<Rightarrow>
            s\<lparr>audit_logs := audit_logs s @ [row], logger := logger s @ [audit_failed e]\<rparr>)"

text \<open>
  Two readings of an outcome of \<open>log_audit_action\<close>: whether the INSERT ran, and the
  exception its handler caught, if any.
\<close>

fun row_written :: "db_write \<Rightarrow> bool" where
  "row_written WriteOk = True"
| "row_written (ConnectFailed e) = False"
| "row_written (ExecuteFailed e) = False"
| "row_written (CloseFailed e) = True"

fun write_failure :: "db_write \<Rightarrow> exn option" where
  "write_failure WriteOk = None"
| "write_failure (ConnectFailed e) = Some e"
| "write_failure (ExecuteFailed e) = Some e"
| "write_failure (CloseFailed e) = Some e"

text \<open>
  One iteration of the loop over \<open>self.platforms\<close> in \<open>run_ecosystem_health_check\<close>: the
  platform with its new status, and what the iteration appends to \<open>critical_issues\<close>.
\<close>

definition check_platform :: "environment \<Rightarrow> FanzPlatform \<Rightarrow> FanzPlatform \<times> string list" where
  "check_platform env platform =
    (case http_get env (p_url platform @ ''/health'') of
       Inr code \<Rightarrow>
         if code = 200
         then (platform\<lparr>p_status := ''healthy'', p_last_health_check := Some (utcnow env)\<rparr>, [])
         else (platform\<lparr>p_status := ''degraded''\<rparr>,
               if p_critical platform then [p_name platform @ '' is degraded''] else [])
     | Inl e \<Rightarrow>
         (platform\<lparr>p_status := ''down''\<rparr>,
          if p_critical platform then [p_name platform @ '' is down: '' @ exn_str e] else []))"

definition health_entry :: "FanzPlatform \<Rightarrow> platform_health" where
  "health_entry platform =
     \<lparr>ph_name = p_name platform, ph_status = p_status platform, ph_critical = p_critical platform,
      ph_last_check = p_last_health_check platform\<rparr>"

text \<open>
  The loop: the platforms as it leaves them, \<open>platform_health\<close> and \<open>critical_issues\<close>.
\<close>

fun check_platforms ::
  "environment \<Rightarrow> (string \<times> FanzPlatform) list
     \<Rightarrow> (string \<times> FanzPlatform) list \<times> (string \<times> platform_health) list \<times> string list" where
  "check_platforms env [] = ([], [], [])"
| "check_platforms env ((platform_id, platform) # rest) =
    (let (platform', issues) = check_platform env platform;
         (rest', health, critical_issues) = check_platforms env rest
     in ((platform_id, platform') # rest',
         (platform_id, health_entry platform') # health,
         issues @ critical_issues))"

definition marker_search :: string where
  "marker_search = [CHR 0xF0, CHR 0x9F, CHR 0x94, CHR 0x8D]"

definition marker_stop :: string where
  "marker_stop = [CHR 0xF0, CHR 0x9F, CHR 0x9B, CHR 0x91]"

definition health_check_started :: log_record where
  "health_check_started = Info (marker_search @ '' Running ecosystem-wide health check'')"

text \<open>
  \<open>run_ecosystem_health_check\<close>. The call of \<open>run_full_health_check\<close> is outside any
  \<open>try\<close>: when it raises, the exception leaves the function after the loop has already
  updated the platforms. The result is the exception or the report, and the state.
\<close>

definition run_ecosystem_health_check ::
  "environment \<Rightarrow> command_state \<Rightarrow> (exn + health_report) \<times> command_state" where
  "run_ecosystem_health_check env s =
    (let s1 = s\<lparr>logger := logger s @ [health_check_started]\<rparr>;
         (platforms', platform_health, critical_issues) = check_platforms env (platforms s1);
         s2 = s1\<lparr>platforms := platforms'\<rparr>
     in case run_full_health_check env (system_integration_services s2) of
          Inl e \<Rightarrow> (Inl e, s2)
        | Inr ts3_health \<Rightarrow>
           (let ecosystem_status = (if critical_issues = [] then ''healthy'' else ''critical'');
                report = \<lparr>hr_timestamp = utcnow env,
                           hr_ecosystem_status = ecosystem_status,
                           hr_platforms = platform_health,
                           hr_taskspark3_services = ts3_health,
                           hr_critical_issues = critical_issues,
                           hr_payment_processors = payment_processors s2\<rparr>
            in (Inr report,
                log_audit_action (audit_write env) (utcnow env) ''SYSTEM'' ''health_check_completed''
                  None None (HealthReport report) s2)))"

text \<open>\<open>trigger_critical_alert\<close>.\<close>

definition trigger_critical_alert :: "environment \<Rightarrow> string list \<Rightarrow> command_state \<Rightarrow> command_state" where
  "trigger_critical_alert env issues s =
     log_audit_action (alert_write env) (utcnow env) ''ALERT_SYSTEM'' ''critical_alert_triggered''
       None None (AlertData (utcnow env) issues)
       (s\<lparr>logger := logger s @ [CriticalAlert issues]\<rparr>)"

text \<open>
  \<open>continuous_health_monitoring\<close>. \<open>monitoring_try\<close> is the block under \<open>try\<close>: the
  exception that leaves it, if any, and the state. \<open>monitoring_cycle\<close> is one iteration
  of \<open>while True\<close>: the \<open>try\<close> with its handler, then \<open>asyncio.sleep(30)\<close>; its first
  component is the exception that leaves the iteration, if any.
\<close>

definition monitoring_try :: "environment \<Rightarrow> command_state \<Rightarrow> exn option \<times> command_state" where
  "monitoring_try env s =
    (case run_ecosystem_health_check env s of
       (Inl e, s1) \<Rightarrow> (Some e, s1)
     | (Inr report, s1) \<Rightarrow>
         (None, if hr_critical_issues report \<noteq> []
                then trigger_critical_alert env (hr_critical_issues report) s1 else s1))"

definition monitoring_error :: "exn \<Rightarrow> log_record" where
  "monitoring_error e = Error (''Health monitoring error: '' @ exn_str e)"

definition monitoring_cycle :: "environment \<Rightarrow> command_state \<Rightarrow> exn option \<times> command_state" where
  "monitoring_cycle env s =
    (let s2 = (case monitoring_try env s of
                 (Some e, s1) \<Rightarrow> s1\<lparr>logger := logger s1 @ [monitoring_error e]\<rparr>
               | (None, s1) \<Rightarrow> s1)
     in (None, s2\<lparr>slept := slept s2 + 30\<rparr>))"

text \<open>
  The loop never returns, so the model runs its first \<open>n\<close> iterations, iteration \<open>k\<close>
  in the environment \<open>envs k\<close>, and stops earlier only when an exception leaves an
  iteration: that exception is the first component of the result.
\<close>

fun continuous_health_monitoring ::
  "nat \<Rightarrow> (nat \<Rightarrow> environment) \<Rightarrow> command_state \<Rightarrow> exn option \<times> command_state" where
  "continuous_health_monitoring 0 envs s = (None, s)"
| "continuous_health_monitoring (Suc n) envs s =
    (case monitoring_cycle (envs 0) s of
       (Some e, s') \<Rightarrow> (Some e, s')
     | (None, s') \<Rightarrow> continuous_health_monitoring n (\<lambda>k. envs (Suc k)) s')"

text \<open>The number of health checks a log shows to have been started.\<close>

definition checks_started :: "log_record list \<Rightarrow> nat" where
  "checks_started lg = length (filter (\<lambda>r. r = health_check_started) lg)"

text \<open>
  \<open>check_payment_processor_health\<close> and \<open>check_fanzfinance_health\<close> as the source has
  them: the first returns a constant dictionary, the second is \<open>pass\<close>.
\<close>

definition check_payment_processor_health :: "string \<Rightarrow> processor_health" where
  "check_payment_processor_health processor =
     \<lparr>pr_processor = processor, pr_healthy = True, pr_response_time = 150\<rparr>"

definition check_fanzfinance_health :: "command_state \<Rightarrow> command_state" where
  "check_fanzfinance_health s = s"

text \<open>
  The \<open>for\<close> loop of \<open>payment_system_monitoring\<close> over \<open>self.payment_processors\<close>,
  whose values are \<open>(enabled, primary)\<close>.
\<close>

fun check_processors ::
  "environment \<Rightarrow> (string \<times> bool \<times> bool) list \<Rightarrow> command_state \<Rightarrow> command_state" where
  "check_processors env [] s = s"
| "check_processors env ((processor, enabled, primary) # rest) s =
    check_processors env rest
      (if enabled
       then (let health = check_payment_processor_health processor
             in if \<not> pr_healthy health
                then log_audit_action (audit_write env) (utcnow env) ''PAYMENT_SYSTEM''
                       (''processor_'' @ processor @ ''_issue'') None None (ProcessorHealth health) s
                else s)
       else s)"

text \<open>
  \<open>payment_system_monitoring\<close>, in the same three parts as the health loop: the block
  under \<open>try\<close>, one iteration (handler and \<open>asyncio.sleep(60)\<close>), and the first \<open>n\<close>
  iterations.
\<close>

definition payment_try :: "environment \<Rightarrow> command_state \<Rightarrow> exn option \<times> command_state" where
  "payment_try env s =
     (None, check_fanzfinance_health (check_processors env (payment_processors s) s))"

definition payment_error :: "exn \<Rightarrow> log_record" where
  "payment_error e = Error (''Payment monitoring error: '' @ exn_str e)"

definition payment_cycle :: "environment \<Rightarrow> command_state \<Rightarrow> exn option \<times> command_state" where
  "payment_cycle env s =
    (let s2 = (case payment_try env s of
                 (Some e, s1) \<Rightarrow> s1\<lparr>logger := logger s1 @ [payment_error e]\<rparr>
               | (None, s1) \<Rightarrow> s1)
     in (None, s2\<lparr>slept := slept s2 + 60\<rparr>))"

fun payment_system_monitoring ::
  "nat \<Rightarrow> (nat \<Rightarrow> environment) \<Rightarrow> command_state \<Rightarrow> exn option \<times> command_state" where
  "payment_system_monitoring 0 envs s = (None, s)"
| "payment_system_monitoring (Suc n) envs s =
    (case payment_cycle (envs 0) s of
       (Some e, s') \<Rightarrow> (Some e, s')
     | (None, s') \<Rightarrow> payment_system_monitoring n (\<lambda>k. envs (Suc k)) s')"

text \<open>
  \<open>get_moderation_queue_stats\<close> returns constants (the float literal \<open>3.2\<close> is the
  float nearest to 3.2), \<open>check_fanzprotect_health\<close> is \<open>pass\<close>, and
  \<open>trigger_moderation_alert\<close> logs a warning and audits.
\<close>

definition get_moderation_queue_stats :: queue_stats where
  "get_moderation_queue_stats =
     \<lparr>qs_pending_reviews = 45, qs_processed_today = 234,
      qs_average_review_time = float64 (32 / 10)\<rparr>"

definition check_fanzprotect_health :: "command_state \<Rightarrow> command_state" where
  "check_fanzprotect_health s = s"

definition trigger_moderation_alert :: "environment \<Rightarrow> queue_stats \<Rightarrow> command_state \<Rightarrow> command_state" where
  "trigger_moderation_alert env stats s =
     log_audit_action (alert_write env) (utcnow env) ''MODERATION_SYSTEM'' ''queue_backup_alert''
       None None (ModerationAlertData (utcnow env) stats)
       (s\<lparr>logger := logger s @ [ModerationAlert stats]\<rparr>)"

text \<open>
  \<open>content_moderation_monitoring\<close>: the block under \<open>try\<close>, one iteration (handler
  and \<open>asyncio.sleep(120)\<close>), and the first \<open>n\<close> iterations.
\<close>

definition moderation_try :: "environment \<Rightarrow> command_state \<Rightarrow> exn option \<times> command_state" where
  "moderation_try env s =
    (let stats = get_moderation_queue_stats;
         s1 = (if 100 < qs_pending_reviews stats then trigger_moderation_alert env stats s else s)
     in (None, check_fanzprotect_health s1))"

definition moderation_error :: "exn \<Rightarrow> log_record" where
  "moderation_error e = Error (''Content moderation monitoring error: '' @ exn_str e)"

definition moderation_cycle :: "environment \<Rightarrow> command_state \<Rightarrow> exn option \<times> command_state" where
  "moderation_cycle env s =
    (let s2 = (case moderation_try env s of
                 (Some e, s1) \<Rightarrow> s1\<lparr>logger := logger s1 @ [moderation_error e]\<rparr>
               | (None, s1) \<Rightarrow> s1)
     in (None, s2\<lparr>slept := slept s2 + 120\<rparr>))"

fun content_moderation_monitoring ::
  "nat \<Rightarrow> (nat \<Rightarrow> environment) \<Rightarrow> command_state \<Rightarrow> exn option \<times> command_state" where
  "content_moderation_monitoring 0 envs s = (None, s)"
| "content_moderation_monitoring (Suc n) envs s =
    (case moderation_cycle (envs 0) s of
       (Some e, s') \<Rightarrow> (Some e, s')
     | (None, s') \<Rightarrow> content_moderation_monitoring n (\<lambda>k. envs (Suc k)) s')"

text \<open>
  \<open>emergency_stop_platform\<close>: the exception raised, if any, and the state. The
  \<open>raise\<close> comes before any assignment.
\<close>

definition emergency_stop_platform ::
  "environment \<Rightarrow> string \<Rightarrow> string \<Rightarrow> command_state \<Rightarrow> exn option \<times> command_state" where
  "emergency_stop_platform env platform_id reason s =
    (case map_of (platforms s) platform_id of
       None \<Rightarrow> (Some (ValueError (''Unknown platform: '' @ platform_id)), s)
     | Some platform \<Rightarrow>
        (let s1 = s\<lparr>emergency_stops := (emergency_stops s)(platform_id \<mapsto>
                      \<lparr>es_stopped_at = utcnow env, es_reason = reason,
                       es_stopped_by = ''FANZDASH_CENTRAL''\<rparr>)\<rparr>;
             s2 = log_audit_action (audit_write env) (utcnow env) ''FANZDASH_CENTRAL''
                    ''emergency_stop'' (Some ''platform'') (Some platform_id) (StopReason reason) s1
         in (None, s2\<lparr>logger := logger s2 @
               [Critical (marker_stop @ '' EMERGENCY STOP: '' @ p_name platform @ '' - '' @ reason)]\<rparr>)))"

text \<open>\<open>set_feature_flag\<close>: no statement of it reads \<open>self.platforms\<close>.\<close>

definition set_feature_flag ::
  "environment \<Rightarrow> string \<Rightarrow> string \<Rightarrow> bool \<Rightarrow> string \<Rightarrow> command_state \<Rightarrow> exn option \<times> command_state" where
  "set_feature_flag env platform_id feature enabled reason s =
    (let flag_key = platform_id @ '':'' @ feature;
         s1 = s\<lparr>feature_flags := (feature_flags s)(flag_key \<mapsto>
                  \<lparr>fv_enabled = enabled, fv_set_at = utcnow env, fv_reason = reason\<rparr>)\<rparr>
     in (None, log_audit_action (audit_write env) (utcnow env) ''FANZDASH_CENTRAL''
                 ''feature_flag_changed'' (Some ''feature'') (Some flag_key)
                 (FlagChange enabled reason) s1))"

text \<open>
  \<open>get_recent_audit_logs\<close>: the rows and the state. The query orders by \<open>created_at\<close>
  descending and keeps \<open>limit\<close> rows; among rows of one time stamp the model puts the
  later inserted first. Every failure, also one of \<open>conn.close\<close> after a successful
  fetch, ends in the handler, which returns the empty list.
\<close>

definition fetch_failed :: "exn \<Rightarrow> log_record" where
  "fetch_failed e = Error (''Failed to fetch audit logs: '' @ exn_str e)"

definition get_recent_audit_logs ::
  "environment \<Rightarrow> nat \<Rightarrow> command_state \<Rightarrow> audit_row list \<times> command_state" where
  "get_recent_audit_logs env limit s =
    (case audit_read env of
       ReadOk \<Rightarrow> (take limit (rev (sort_key a_created_at (audit_logs s))), s)
     | ReadConnectFailed e \<Rightarrow> ([], s\<lparr>logger := logger s @ [fetch_failed e]\<rparr>)
     | FetchFailed e \<Rightarrow> ([], s\<lparr>logger := logger s @ [fetch_failed e]\<rparr>)
     | ReadCloseFailed e \<Rightarrow> ([], s\<lparr>logger := logger s @ [fetch_failed e]\<rparr>))"

text \<open>The dictionary \<open>get_ecosystem_dashboard_data\<close> returns.\<close>

record dashboard_data =
  dd_timestamp :: timestamp
  dd_ecosystem_health :: health_report
  dd_feature_flags :: "string \<rightharpoonup> flag_value"
  dd_emergency_stops :: "string \<rightharpoonup> stop_value"
  dd_payment_processors :: "(string \<times> bool \<times> bool) list"
  dd_recent_audit_logs :: "audit_row list"

text \<open>
  \<open>get_ecosystem_dashboard_data\<close>: the health check first (what it raises leaves the
  function), then the dictionary, whose last entry calls \<open>get_recent_audit_logs\<close> with
  the default limit 50.
\<close>

definition get_ecosystem_dashboard_data ::
  "environment \<Rightarrow> command_state \<Rightarrow> (exn + dashboard_data) \<times> command_state" where
  "get_ecosystem_dashboard_data env s =
    (case run_ecosystem_health_check env s of
       (Inl e, s1) \<Rightarrow> (Inl e, s1)
     | (Inr report, s1) \<Rightarrow>
        (let (logs, s2) = get_recent_audit_logs env 50 s1
         in (Inr \<lparr>dd_timestamp = utcnow env,
                  dd_ecosystem_health = report,
                  dd_feature_flags = feature_flags s1,
                  dd_emergency_stops = emergency_stops s1,
                  dd_payment_processors = payment_processors s1,
                  dd_recent_audit_logs = logs\<rparr>, s2)))"

section \<open>Example environments\<close>

text \<open>
  Environments for concrete runs: everything answers; the platform FanzFinance OS
  times out; the platform FanzDash Control answers 503; the audit database refuses
  connections; \<open>init_db\<close> fails; FanzFinance OS times out and \<open>init_db\<close> fails.
\<close>

definition healthy_env :: environment where
  "healthy_env =
    \<lparr>http_get = (\<lambda>url. Inr 200), init_db_result = None, db_query = Inr (6, 10),
     default_data_result = None, utcnow = 1000, audit_write = WriteOk, alert_write = WriteOk,
     audit_read = ReadOk\<rparr>"

definition outage_env :: environment where
  "outage_env = healthy_env\<lparr>http_get :=
     (\<lambda>url. if url = ''http://localhost:8010/health'' then Inl (Exception ''timeout'') else Inr 200)\<rparr>"

definition degraded_env :: environment where
  "degraded_env = healthy_env\<lparr>http_get :=
     (\<lambda>url. if url = ''http://localhost:3000/health'' then Inr 503 else Inr 200)\<rparr>"

definition audit_down_env :: environment where
  "audit_down_env = healthy_env
     \<lparr>audit_write := ConnectFailed (Exception ''connection refused''),
      audit_read := ReadConnectFailed (Exception ''connection refused'')\<rparr>"

definition pool_down_env :: environment where
  "pool_down_env = healthy_env\<lparr>init_db_result := Some (Exception ''connection refused'')\<rparr>"

definition outage_pool_down_env :: environment where
  "outage_pool_down_env = outage_env\<lparr>init_db_result := Some (Exception ''connection refused'')\<rparr>"

section \<open>Auxiliary facts\<close>

subsection \<open>Floating point\<close>

lemma round_half_even_bounds:
  assumes "of_int a \<le> x" and "x \<le> of_int b"
  shows "a \<le> round_half_even x \<and> round_half_even x \<le> b"
proof -
  let ?f = "\<lfloor>x\<rfloor>"
  have lo: "a \<le> ?f" using assms(1) by (simp add: le_floor_iff)
  have hi: "?f \<le> b" using assms(2) by (simp add: floor_le_iff)
  have up: "?f + 1 \<le> b" if "0 < x - of_int ?f"
  proof -
    from that have "of_int ?f < x" by simp
    with assms(2) have "(of_int ?f :: real) < of_int b" by linarith
    then show ?thesis by simp
  qed
  show ?thesis
    unfolding round_half_even_def Let_def
    using lo hi up by (auto split: if_splits)
qed

lemma floor_log2_le: "0 < n \<Longrightarrow> 2 ^ floor_log2 n \<le> n"
proof (induction n rule: floor_log2.induct)
  case (1 n)
  show ?case
  proof (cases "n < 2")
    case True
    with "1.prems" show ?thesis by (simp add: floor_log2.simps)
  next
    case False
    then have "0 < n div 2" by simp
    with "1.IH" False have "2 ^ floor_log2 (n div 2) \<le> n div 2" by simp
    then have "2 * 2 ^ floor_log2 (n div 2) \<le> n" by simp
    with False show ?thesis by (simp add: floor_log2.simps [of n])
  qed
qed

lemma binade_le:
  assumes "0 < x" and "x \<le> 100"
  shows "binade x \<le> 6"
proof (cases "1 \<le> x")
  case True
  let ?n = "nat \<lfloor>x\<rfloor>"
  have pos: "0 < ?n" using True by simp
  have "?n \<le> 100" using assms(2) by (simp add: floor_le_iff nat_le_iff)
  with floor_log2_le [OF pos] have le: "(2::nat) ^ floor_log2 ?n \<le> 100" by linarith
  have "floor_log2 ?n \<le> 6"
  proof (rule ccontr)
    assume "\<not> floor_log2 ?n \<le> 6"
    then have "7 \<le> floor_log2 ?n" by simp
    then have "(2::nat) ^ 7 \<le> 2 ^ floor_log2 ?n" by (rule power_increasing) simp
    with le show False by simp
  qed
  with True show ?thesis by (simp add: binade_def)
next
  case False
  then show ?thesis by (simp add: binade_def)
qed

lemma float64_nonneg:
  assumes "0 \<le> x"
  shows "0 \<le> float64 x"
proof (cases "x = 0")
  case True
  then show ?thesis by (simp add: float64_def)
next
  case False
  with assms have pos: "0 < x" by simp
  have sp: "0 < spacing x" by (simp add: spacing_def pow2_def)
  with pos have "of_int 0 \<le> x / spacing x" by simp
  moreover have "x / spacing x \<le> of_int (\<lceil>x / spacing x\<rceil>)" by simp
  ultimately have "0 \<le> round_half_even (x / spacing x)"
    using round_half_even_bounds by blast
  with sp pos show ?thesis by (simp add: float64_def)
qed

lemma float64_le_int:
  assumes "0 \<le> x" and "x \<le> of_int c" and "x \<le> 100"
  shows "float64 x \<le> of_int c"
proof (cases "x = 0")
  case True
  with assms(2) show ?thesis by (simp add: float64_def)
next
  case False
  with assms(1) have pos: "0 < x" by simp
  define n where "n = nat (52 - max (binade x) (- 1022))"
  from binade_le [OF pos assms(3)] have sp: "spacing x = 1 / 2 ^ n"
    by (simp add: spacing_def pow2_def n_def)
  have a: "of_int 0 \<le> x * 2 ^ n" using pos by simp
  have "x * 2 ^ n \<le> of_int c * 2 ^ n" using assms(2) by simp
  then have b: "x * 2 ^ n \<le> of_int (c * 2 ^ n)" by simp
  from round_half_even_bounds [OF a b]
  have "round_half_even (x * 2 ^ n) \<le> c * 2 ^ n" by simp
  then have "(of_int (round_half_even (x * 2 ^ n)) :: real) \<le> of_int (c * 2 ^ n)"
    by (simp only: of_int_le_iff)
  then have "(of_int (round_half_even (x * 2 ^ n)) :: real) / 2 ^ n \<le> of_int c"
    by (simp add: divide_le_eq)
  with pos sp show ?thesis by (simp add: float64_def)
qed

lemma services_percentage_bounds:
  assumes "h \<le> t" and "0 < t"
  shows "\<exists>k p. 0 \<le> k \<and> k \<le> 10000 \<and> services_percentage h t = Inr p
           \<and> p = py_round2 (float64 (float64 (of_nat h / of_nat t) * 100))
           \<and> p = float64 (of_int k / 100) \<and> 0 \<le> p \<and> p \<le> 100"
proof -
  let ?q = "float64 (of_nat h / of_nat t)"
  let ?p = "float64 (?q * 100)"
  let ?k = "round_half_even (?p * 100)"
  have r0: "(0::real) \<le> of_nat h / of_nat t" by simp
  have r1: "(of_nat h / of_nat t :: real) \<le> of_int 1" using assms by (simp add: divide_le_eq_1)
  have q0: "0 \<le> ?q" using r0 by (rule float64_nonneg)
  have q1: "?q \<le> 1" using float64_le_int [OF r0 r1] r1 by simp
  have p0: "0 \<le> ?p" using q0 by (intro float64_nonneg) simp
  have "?q * 100 \<le> of_int 100" using q1 by simp
  with q0 have p1: "?p \<le> 100" using float64_le_int [of "?q * 100" 100] by simp
  have "of_int 0 \<le> ?p * 100" "?p * 100 \<le> of_int 10000" using p0 p1 by simp_all
  from round_half_even_bounds [OF this] have k: "0 \<le> ?k" "?k \<le> 10000" by simp_all
  from k have kr: "(0::real) \<le> of_int ?k / 100" "(of_int ?k / 100 :: real) \<le> of_int 100"
    by simp_all
  have f0: "0 \<le> float64 (of_int ?k / 100)" using kr(1) by (rule float64_nonneg)
  have f1: "float64 (of_int ?k / 100) \<le> 100" using float64_le_int [OF kr(1) kr(2)] kr(2) by simp
  show ?thesis
    using k f0 f1 assms(2)
    by (intro exI [of _ ?k]) (simp add: services_percentage_def py_round2_def)
qed

subsection \<open>The aggregation of \<open>run_full_health_check\<close>\<close>

lemma all_pass_filter: "(length (filter P xs) = length xs) = list_all P xs"
proof (induction xs)
  case Nil
  show ?case by simp
next
  case (Cons x xs)
  have "length (filter P xs) \<noteq> Suc (length xs)"
    using length_filter_le [of P xs] by linarith
  with Cons show ?case by auto
qed

lemma critical_services_up_iff:
  "critical_services_up service_checks =
     list_all (\<lambda>c. chk_status c = ''healthy'' \<or> (chk_status c = ''down'' \<and> \<not> chk_critical c))
       service_checks"
  unfolding critical_services_up_def by (induction service_checks) auto

lemma calculate_overall_health_returns:
  assumes "service_checks \<noteq> []"
  shows "\<exists>r. calculate_overall_health now service_checks dbh = Inr r"
  using assms by (simp add: calculate_overall_health_def services_percentage_def Let_def)

lemma run_full_health_check_returns:
  assumes "init_db_result env = None" and "default_data_result env = None" and "svcs \<noteq> []"
  shows "\<exists>t. run_full_health_check env svcs = Inr t"
proof -
  from assms(3) have "check_services env svcs \<noteq> []" by (simp add: check_services_def)
  from calculate_overall_health_returns [OF this] show ?thesis
    using assms(1,2) by (simp add: run_full_health_check_def Let_def)
qed

subsection \<open>The audit writer\<close>

lemma log_audit_action_keeps:
  "platforms (log_audit_action w now a b c d m s) = platforms s"
  "system_integration_services (log_audit_action w now a b c d m s) = system_integration_services s"
  "payment_processors (log_audit_action w now a b c d m s) = payment_processors s"
  "feature_flags (log_audit_action w now a b c d m s) = feature_flags s"
  "emergency_stops (log_audit_action w now a b c d m s) = emergency_stops s"
  "slept (log_audit_action w now a b c d m s) = slept s"
  by (cases w; simp add: log_audit_action_def)+

lemma log_audit_action_table:
  "audit_logs (log_audit_action w now a b c d m s) =
     audit_logs s @ (if row_written w
                     then [\<lparr>a_actor_id = a, a_action = b, a_target_type = c, a_target_id = d,
                            a_metadata = m, a_created_at = now\<rparr>] else [])"
  by (cases w) (simp_all add: log_audit_action_def)

lemma log_audit_action_logger:
  "logger (log_audit_action w now a b c d m s) =
     logger s @ (case write_failure w of None \<Rightarrow> [] | Some e \<Rightarrow> [audit_failed e])"
  by (cases w) (simp_all add: log_audit_action_def)

lemma checks_started_append:
  "checks_started (xs @ ys) = checks_started xs + checks_started ys"
  by (simp add: checks_started_def)

lemma checks_started_audit:
  "checks_started (logger (log_audit_action w now a b c d m s)) = checks_started (logger s)"
  by (cases w) (simp_all add: log_audit_action_def checks_started_def audit_failed_def
        health_check_started_def)

subsection \<open>The ecosystem health check\<close>

lemma check_platforms_issues:
  "snd (snd (check_platforms env ps)) = concat (map (\<lambda>(pid, p). snd (check_platform env p)) ps)"
  by (induction ps) (auto simp: split_def Let_def)

lemma run_ecosystem_health_check_raises:
  assumes "run_full_health_check env (system_integration_services s) = Inl e"
  shows "fst (run_ecosystem_health_check env s) = Inl e"
  using assms by (simp add: run_ecosystem_health_check_def Let_def split_def)

lemma run_ecosystem_health_check_report:
  assumes "run_full_health_check env (system_integration_services s) = Inr t"
  shows "\<exists>report s'. run_ecosystem_health_check env s = (Inr report, s')
     \<and> hr_critical_issues report = concat (map (\<lambda>(pid, p). snd (check_platform env p)) (platforms s))
     \<and> hr_ecosystem_status report = (if hr_critical_issues report = [] then ''healthy'' else ''critical'')
     \<and> hr_taskspark3_services report = t"
  using assms
  by (simp add: run_ecosystem_health_check_def Let_def split_def check_platforms_issues)

lemma run_ecosystem_health_check_keeps:
  "feature_flags (snd (run_ecosystem_health_check env s)) = feature_flags s"
  "emergency_stops (snd (run_ecosystem_health_check env s)) = emergency_stops s"
  "payment_processors (snd (run_ecosystem_health_check env s)) = payment_processors s"
  "slept (snd (run_ecosystem_health_check env s)) = slept s"
  by (simp_all add: run_ecosystem_health_check_def Let_def split_def log_audit_action_keeps
        split: sum.splits)

lemma run_ecosystem_health_check_started:
  "checks_started (logger (snd (run_ecosystem_health_check env s))) = Suc (checks_started (logger s))"
  by (simp add: run_ecosystem_health_check_def Let_def split_def checks_started_audit
        checks_started_append split: sum.splits)
     (simp add: checks_started_def)

lemma issue_of_platform:
  assumes "(pid, p) \<in> set ps" and "i \<in> set (snd (check_platform env p))"
  shows "i \<in> set (concat (map (\<lambda>(pid, p). snd (check_platform env p)) ps))"
  using assms by force

lemma no_issues_iff:
  "(concat (map (\<lambda>(pid, p). snd (check_platform env p)) ps) = [])
     = (\<not> list_ex (\<lambda>(pid, p). p_critical p \<and> http_get env (p_url p @ ''/health'') \<noteq> Inr 200) ps)"
  by (induction ps) (auto simp: check_platform_def split: sum.splits)

subsection \<open>The monitoring loop\<close>

lemma trigger_critical_alert_keeps:
  "slept (trigger_critical_alert env issues s) = slept s"
  "checks_started (logger (trigger_critical_alert env issues s)) = checks_started (logger s)"
  by (simp_all add: trigger_critical_alert_def log_audit_action_keeps checks_started_audit)
     (simp add: checks_started_def health_check_started_def)

lemma monitoring_try_effects:
  "checks_started (logger (snd (monitoring_try env s))) = Suc (checks_started (logger s))"
  "slept (snd (monitoring_try env s)) = slept s"
proof -
  obtain r s1 where r: "run_ecosystem_health_check env s = (r, s1)"
    by (cases "run_ecosystem_health_check env s")
  from run_ecosystem_health_check_started [of env s] r
  have c: "checks_started (logger s1) = Suc (checks_started (logger s))" by simp
  from run_ecosystem_health_check_keeps(4) [of env s] r
  have l: "slept s1 = slept s" by simp
  show "checks_started (logger (snd (monitoring_try env s))) = Suc (checks_started (logger s))"
    using r c by (cases r) (simp_all add: monitoring_try_def trigger_critical_alert_keeps)
  show "slept (snd (monitoring_try env s)) = slept s"
    using r l by (cases r) (simp_all add: monitoring_try_def trigger_critical_alert_keeps)
qed

lemma monitoring_cycle_effects:
  "fst (monitoring_cycle env s) = None"
  "checks_started (logger (snd (monitoring_cycle env s))) = Suc (checks_started (logger s))"
  "slept (snd (monitoring_cycle env s)) = slept s + 30"
proof -
  obtain x s1 where t: "monitoring_try env s = (x, s1)" by (cases "monitoring_try env s")
  from monitoring_try_effects [of env s] t
  have e: "checks_started (logger s1) = Suc (checks_started (logger s))" "slept s1 = slept s"
    by simp_all
  show "fst (monitoring_cycle env s) = None" by (simp add: monitoring_cycle_def Let_def)
  show "checks_started (logger (snd (monitoring_cycle env s))) = Suc (checks_started (logger s))"
    using t e by (cases x)
      (simp_all add: monitoring_cycle_def checks_started_append,
       simp add: checks_started_def monitoring_error_def health_check_started_def)
  show "slept (snd (monitoring_cycle env s)) = slept s + 30"
    using t e by (cases x) (simp_all add: monitoring_cycle_def)
qed

lemma continuous_health_monitoring_effects:
  "fst (continuous_health_monitoring n envs s) = None
   \<and> checks_started (logger (snd (continuous_health_monitoring n envs s))) = checks_started (logger s) + n
   \<and> slept (snd (continuous_health_monitoring n envs s)) = slept s + 30 * n"
proof (induction n arbitrary: envs s)
  case 0
  show ?case by simp
next
  case (Suc n)
  obtain s' where c: "monitoring_cycle (envs 0) s = (None, s')"
    using monitoring_cycle_effects(1) [of "envs 0" s] by (cases "monitoring_cycle (envs 0) s") simp
  from monitoring_cycle_effects(2,3) [of "envs 0" s] c
  have e: "checks_started (logger s') = Suc (checks_started (logger s))" "slept s' = slept s + 30"
    by simp_all
  from Suc [of "\<lambda>k. envs (Suc k)" s'] c e show ?case by simp
qed

lemma check_platforms_keys:
  "map fst (fst (check_platforms env ps)) = map fst ps"
  by (induction ps) (auto simp: split_def Let_def)

lemma run_ecosystem_health_check_platforms:
  "platforms (snd (run_ecosystem_health_check env s)) = fst (check_platforms env (platforms s))"
  by (simp add: run_ecosystem_health_check_def Let_def split_def log_audit_action_keeps
        split: sum.splits)

lemma trigger_critical_alert_platforms:
  "platforms (trigger_critical_alert env issues s) = platforms s"
  by (simp add: trigger_critical_alert_def log_audit_action_keeps)

lemma monitoring_cycle_failed:
  assumes "run_ecosystem_health_check env s = (Inl e, s1)"
  shows "monitoring_cycle env s
           = (None, s1\<lparr>logger := logger s1 @ [monitoring_error e], slept := slept s1 + 30\<rparr>)"
  using assms by (simp add: monitoring_cycle_def monitoring_try_def)

lemma monitoring_cycle_reported:
  assumes "run_ecosystem_health_check env s = (Inr report, s1)"
  shows "monitoring_cycle env s
           = (None, (if hr_critical_issues report \<noteq> []
                     then trigger_critical_alert env (hr_critical_issues report) s1 else s1)
                    \<lparr>slept := slept s1 + 30\<rparr>)"
  using assms by (simp add: monitoring_cycle_def monitoring_try_def trigger_critical_alert_keeps)

lemma monitoring_cycle_platforms:
  "platforms (snd (monitoring_cycle env s)) = fst (check_platforms env (platforms s))"
proof -
  obtain r s1 where r: "run_ecosystem_health_check env s = (r, s1)"
    by (cases "run_ecosystem_health_check env s")
  from run_ecosystem_health_check_platforms [of env s] r
  have p: "platforms s1 = fst (check_platforms env (platforms s))" by simp
  show ?thesis
  proof (cases r)
    case (Inl e)
    with r p show ?thesis by (simp add: monitoring_cycle_failed)
  next
    case (Inr report)
    with r p show ?thesis by (simp add: monitoring_cycle_reported trigger_critical_alert_platforms)
  qed
qed

lemma continuous_health_monitoring_unroll:
  "continuous_health_monitoring (Suc n) envs s
     = continuous_health_monitoring n (\<lambda>k. envs (Suc k)) (snd (monitoring_cycle (envs 0) s))"
  using monitoring_cycle_effects(1) [of "envs 0" s]
  by (cases "monitoring_cycle (envs 0) s") simp

subsection \<open>The payment and moderation loops\<close>

lemma check_processors_id: "check_processors env ps s = s"
  by (induction ps arbitrary: s) (auto simp: check_payment_processor_health_def)

lemma payment_try_id: "payment_try env s = (None, s)"
  by (simp add: payment_try_def check_processors_id check_fanzfinance_health_def)

lemma payment_cycle_eq: "payment_cycle env s = (None, s\<lparr>slept := slept s + 60\<rparr>)"
  by (simp add: payment_cycle_def payment_try_id)

lemma payment_system_monitoring_eq:
  "payment_system_monitoring n envs s = (None, s\<lparr>slept := slept s + 60 * n\<rparr>)"
  by (induction n arbitrary: envs s) (simp_all add: payment_cycle_eq)

lemma moderation_try_id: "moderation_try env s = (None, s)"
  by (simp add: moderation_try_def get_moderation_queue_stats_def check_fanzprotect_health_def)

lemma moderation_cycle_eq: "moderation_cycle env s = (None, s\<lparr>slept := slept s + 120\<rparr>)"
  by (simp add: moderation_cycle_def moderation_try_id)

lemma content_moderation_monitoring_eq:
  "content_moderation_monitoring n envs s = (None, s\<lparr>slept := slept s + 120 * n\<rparr>)"
  by (induction n arbitrary: envs s) (simp_all add: moderation_cycle_eq)

section \<open>The claims\<close>

subsection \<open>C1: the overall status\<close>

text \<open>
  Claim C1 says that the aggregated overall status is \<open>critical\<close> exactly when some
  result is critical and down, and \<open>operational\<close> otherwise. The code has two
  aggregations and neither follows that rule. \<open>run_full_health_check\<close> reports
  \<open>operational\<close> exactly when every result is \<open>healthy\<close> or is a non-critical
  \<open>down\<close>, and \<open>degraded\<close> otherwise: it never reports \<open>critical\<close>, and a result
  that answered without success (status \<open>unhealthy\<close>) makes it \<open>degraded\<close> whether
  critical or not. \<open>run_ecosystem_health_check\<close>, when it returns a report, sets
  \<open>ecosystem_status\<close> to \<open>critical\<close> exactly when some critical platform did not
  answer 200 (degraded or down), and to \<open>healthy\<close> otherwise.
\<close>

theorem overall_status_policy:
  assumes "calculate_overall_health now service_checks dbh = Inr r"
    and "run_full_health_check env (system_integration_services s) = Inr t"
  shows "r_overall_status r =
           (if list_all (\<lambda>c. chk_status c = ''healthy'' \<or> (chk_status c = ''down'' \<and> \<not> chk_critical c))
                 service_checks
            then ''operational'' else ''degraded'')
       \<and> (\<exists>report s'. run_ecosystem_health_check env s = (Inr report, s')
            \<and> hr_ecosystem_status report =
                (if list_ex (\<lambda>(pid, p). p_critical p \<and> http_get env (p_url p @ ''/health'') \<noteq> Inr 200)
                      (platforms s)
                 then ''critical'' else ''healthy''))"
proof -
  from assms(1) have a: "r_overall_status r =
           (if list_all (\<lambda>c. chk_status c = ''healthy'' \<or> (chk_status c = ''down'' \<and> \<not> chk_critical c))
                 service_checks
            then ''operational'' else ''degraded'')"
    by (auto simp: calculate_overall_health_def Let_def critical_services_up_iff split: sum.splits)
  from run_ecosystem_health_check_report [OF assms(2)]
  obtain report s' where b: "run_ecosystem_health_check env s = (Inr report, s')"
     "hr_critical_issues report = concat (map (\<lambda>(pid, p). snd (check_platform env p)) (platforms s))"
     "hr_ecosystem_status report = (if hr_critical_issues report = [] then ''healthy'' else ''critical'')"
    by blast
  from b(3) have "hr_ecosystem_status report =
                (if \<not> list_ex (\<lambda>(pid, p). p_critical p \<and> http_get env (p_url p @ ''/health'') \<noteq> Inr 200)
                      (platforms s)
                 then ''healthy'' else ''critical'')"
    unfolding b(2) no_issues_iff .
  then have "hr_ecosystem_status report =
                (if list_ex (\<lambda>(pid, p). p_critical p \<and> http_get env (p_url p @ ''/health'') \<noteq> Inr 200)
                      (platforms s)
                 then ''critical'' else ''healthy'')"
    by (simp split: if_splits)
  with a b(1) show ?thesis by blast
qed


text \<open>
  A run of both: a healthy critical service with a non-critical one that is down is
  \<open>operational\<close>; the initial platforms with FanzFinance OS timing out are
  \<open>critical\<close>.
\<close>

theorem overall_status_policy_witness:
  "(\<exists>r. calculate_overall_health 1000
       [check_service_health ''main_app'' \<lparr>cfg_url = ''http://localhost:5000'', cfg_critical = True\<rparr> (Inr 200),
        check_service_health ''ai_service'' \<lparr>cfg_url = ''http://localhost:8006'', cfg_critical = False\<rparr>
          (Inl (Exception ''refused''))]
       (check_database_health (Inr (6, 10))) = Inr r
      \<and> r_overall_status r = ''operational'')
   \<and> (\<exists>report s'. run_ecosystem_health_check outage_env init_state = (Inr report, s')
        \<and> hr_ecosystem_status report = ''critical'')"
proof -
  let ?cs = "[check_service_health ''main_app'' \<lparr>cfg_url = ''http://localhost:5000'', cfg_critical = True\<rparr> (Inr 200),
        check_service_health ''ai_service'' \<lparr>cfg_url = ''http://localhost:8006'', cfg_critical = False\<rparr>
          (Inl (Exception ''refused''))]"
  have "?cs \<noteq> []" by simp
  from calculate_overall_health_returns [OF this]
  obtain r where r: "calculate_overall_health 1000 ?cs (check_database_health (Inr (6, 10))) = Inr r"
    by blast
  have "\<exists>t. run_full_health_check outage_env (system_integration_services init_state) = Inr t"
    by (rule run_full_health_check_returns)
       (simp_all add: outage_env_def healthy_env_def init_state_def services_def)
  then obtain t where t: "run_full_health_check outage_env (system_integration_services init_state) = Inr t"
    by blast
  have ex: "list_ex (\<lambda>(pid, p). p_critical p \<and> http_get outage_env (p_url p @ ''/health'') \<noteq> Inr 200)
              (platforms init_state)"
    by (simp add: init_state_def new_platform_def outage_env_def healthy_env_def)
  have al: "list_all (\<lambda>c. chk_status c = ''healthy'' \<or> (chk_status c = ''down'' \<and> \<not> chk_critical c)) ?cs"
    by (simp add: check_service_health_def)
  from overall_status_policy [OF r t] ex al r show ?thesis by auto
qed


text \<open>
  Against C1 as stated: one non-critical service answering 503 (no result is critical
  and down) gives \<open>degraded\<close>, not \<open>operational\<close>; one critical service that is down
  gives \<open>degraded\<close>, not \<open>critical\<close>; and the initial platforms with the critical
  FanzDash Control answering 503 (again nothing is down) give \<open>critical\<close>.
\<close>

theorem overall_status_counterexample:
  "map_sum id r_overall_status (calculate_overall_health 1000
     [check_service_health ''sso_service'' \<lparr>cfg_url = ''http://localhost:8011'', cfg_critical = False\<rparr> (Inr 503)]
     (check_database_health (Inr (6, 10)))) = Inr ''degraded''
  \<and> map_sum id r_overall_status (calculate_overall_health 1000
     [check_service_health ''main_app'' \<lparr>cfg_url = ''http://localhost:5000'', cfg_critical = True\<rparr>
        (Inl (Exception ''refused''))]
     (check_database_health (Inr (6, 10)))) = Inr ''degraded''
  \<and> map_sum id hr_ecosystem_status (fst (run_ecosystem_health_check degraded_env init_state))
      = Inr ''critical''"
proof -
  have "\<exists>t. run_full_health_check degraded_env (system_integration_services init_state) = Inr t"
    by (rule run_full_health_check_returns)
       (simp_all add: degraded_env_def healthy_env_def init_state_def services_def)
  then obtain t where t: "run_full_health_check degraded_env (system_integration_services init_state) = Inr t"
    by blast
  from run_ecosystem_health_check_report [OF t]
  obtain report s' where b: "run_ecosystem_health_check degraded_env init_state = (Inr report, s')"
     "hr_critical_issues report
        = concat (map (\<lambda>(pid, p). snd (check_platform degraded_env p)) (platforms init_state))"
     "hr_ecosystem_status report = (if hr_critical_issues report = [] then ''healthy'' else ''critical'')"
    by blast
  have "hr_critical_issues report = [''FanzDash Control is degraded'']"
    unfolding b(2)
    by (simp add: init_state_def new_platform_def degraded_env_def healthy_env_def check_platform_def)
  with b(1,3) have c: "map_sum id hr_ecosystem_status (fst (run_ecosystem_health_check degraded_env init_state))
      = Inr ''critical''" by simp
  show ?thesis
    using c
    by (simp add: calculate_overall_health_def services_percentage_def critical_services_up_def
        check_service_health_def Let_def)
qed


subsection \<open>C2: the probe\<close>

text \<open>
  Claim C2, with the status the code gives: \<open>check_service_health\<close> has no raising
  branch and returns a result for every outcome of the request. A response other than
  200 gives the status \<open>unhealthy\<close> (the claim says \<open>degraded\<close>, a status this
  function never returns) together with the response code; an exception of the request
  (unreachable, timeout, any transport failure) gives \<open>down\<close> with an error text of at
  most 100 characters; and the loop of \<open>run_full_health_check\<close> yields exactly one
  result for each service of the registry, in order.
\<close>

theorem check_service_health_result:
  "chk_status (check_service_health name config (Inr code))
      = (if code = 200 then ''healthy'' else ''unhealthy'')
   \<and> chk_response_code (check_service_health name config (Inr code)) = Some code
   \<and> chk_status (check_service_health name config (Inl e)) = ''down''
   \<and> chk_error (check_service_health name config (Inl e)) = Some (take 100 (exn_str e))
   \<and> length (take 100 (exn_str e)) \<le> 100
   \<and> chk_service (check_service_health name config outcome) = name
   \<and> chk_critical (check_service_health name config outcome) = cfg_critical config
   \<and> map chk_service (check_services env svcs) = map fst svcs
   \<and> length (check_services env svcs) = length svcs"
proof -
  have one: "map chk_service (check_services env svcs) = map fst svcs"
    unfolding check_services_def
    by (induction svcs) (auto simp: check_service_health_def split: sum.splits)
  have len: "length (check_services env svcs) = length svcs"
    by (simp add: check_services_def)
  show ?thesis
    using one len by (cases outcome) (simp_all add: check_service_health_def)
qed

text \<open>
  Against C2 as stated: the service \<open>main_app\<close> answering 500 is reachable with a
  non-success signal, and its status is \<open>unhealthy\<close>, not \<open>degraded\<close>.
\<close>

theorem check_service_health_counterexample:
  "chk_status (check_service_health ''main_app''
        \<lparr>cfg_url = ''http://localhost:5000'', cfg_critical = True\<rparr> (Inr 500)) = ''unhealthy''
   \<and> chk_status (check_service_health ''main_app''
        \<lparr>cfg_url = ''http://localhost:5000'', cfg_critical = True\<rparr> (Inr 500)) \<noteq> ''degraded''"
  by (simp add: check_service_health_def)

subsection \<open>C3: the percentage\<close>

text \<open>
  Claim C3, for the result sets the division is defined on: for every non-empty list of
  results the aggregation returns a report whose percentage is
  \<open>round(healthy / total * 100, 2)\<close> as Python computes it in binary floating point
  (the quotient rounded to a float, the product with 100 rounded to a float, then
  \<open>round\<close>); it is the float nearest to a number of hundredths between 0 and 100, and
  it lies between 0 and 100. (The claim also defines the percentage of the empty result
  set as 0; the code has no such guard.)
\<close>

theorem percentage_of_nonempty:
  assumes "service_checks \<noteq> []"
  shows "\<exists>r. calculate_overall_health now service_checks dbh = Inr r
      \<and> sv_healthy (r_services r) = length (filter (\<lambda>s. chk_status s = ''healthy'') service_checks)
      \<and> sv_total (r_services r) = length service_checks
      \<and> sv_percentage (r_services r)
          = py_round2 (float64 (float64 (of_nat (sv_healthy (r_services r))
                                          / of_nat (sv_total (r_services r))) * 100))
      \<and> (\<exists>k. 0 \<le> k \<and> k \<le> 10000 \<and> sv_percentage (r_services r) = float64 (of_int k / 100))
      \<and> 0 \<le> sv_percentage (r_services r) \<and> sv_percentage (r_services r) \<le> 100"
proof -
  let ?h = "length (filter (\<lambda>s. chk_status s = ''healthy'') service_checks)"
  let ?t = "length service_checks"
  have t: "0 < ?t" using assms by simp
  have h: "?h \<le> ?t" by simp
  from services_percentage_bounds [OF h t]
  obtain k p where kp: "0 \<le> k" "k \<le> 10000" "services_percentage ?h ?t = Inr p"
    "p = py_round2 (float64 (float64 (of_nat ?h / of_nat ?t) * 100))"
    "p = float64 (of_int k / 100)" "0 \<le> p" "p \<le> 100"
    by blast
  have "calculate_overall_health now service_checks dbh =
      Inr \<lparr>r_timestamp = now,
           r_overall_status =
             (if critical_services_up service_checks then ''operational'' else ''degraded''),
           r_services = \<lparr>sv_healthy = ?h, sv_total = ?t, sv_percentage = p,
                          sv_details = service_checks\<rparr>,
           r_database = dbh,
           r_recommendations = generate_recommendations service_checks dbh\<rparr>"
    using kp(3) by (simp add: calculate_overall_health_def Let_def)
  with kp show ?thesis by auto
qed

text \<open>
  Three services, two healthy and one critical service timing out: 2 of 3 healthy,
  and the percentage is the float nearest to 66.67. And where exact arithmetic would
  give another answer: for 23 healthy of 160 the exact percentage 14.375 is a tie, the
  float product is just below it, and the result is the float nearest to 14.37.
\<close>

theorem percentage_of_nonempty_witness:
  "(\<exists>r. calculate_overall_health 1000
     [check_service_health ''main_app'' \<lparr>cfg_url = ''http://localhost:5000'', cfg_critical = True\<rparr>
        (Inr 200),
      check_service_health ''api_gateway'' \<lparr>cfg_url = ''http://localhost:8080/graphql'', cfg_critical = True\<rparr>
        (Inr 200),
      check_service_health ''user_service''
        \<lparr>cfg_url = ''http://localhost:8001/api/v1/health'', cfg_critical = True\<rparr>
        (Inl (Exception ''timeout''))]
      (check_database_health (Inr (6, 10))) = Inr r
    \<and> sv_healthy (r_services r) = 2 \<and> sv_total (r_services r) = 3
    \<and> sv_percentage (r_services r) = float64 (6667 / 100)
    \<and> sv_percentage (r_services r) = 4691484174324859 / 70368744177664
    \<and> 0 \<le> sv_percentage (r_services r) \<and> sv_percentage (r_services r) \<le> 100)
   \<and> services_percentage 23 160 = Inr (float64 (1437 / 100))
   \<and> float64 (1437 / 100) = 8089590830664253 / 562949953421312"
proof -
  let ?cs = "[check_service_health ''main_app'' \<lparr>cfg_url = ''http://localhost:5000'', cfg_critical = True\<rparr>
        (Inr 200),
      check_service_health ''api_gateway'' \<lparr>cfg_url = ''http://localhost:8080/graphql'', cfg_critical = True\<rparr>
        (Inr 200),
      check_service_health ''user_service''
        \<lparr>cfg_url = ''http://localhost:8001/api/v1/health'', cfg_critical = True\<rparr>
        (Inl (Exception ''timeout''))]"
  have ne: "?cs \<noteq> []" by simp
  from percentage_of_nonempty [OF ne, of 1000 "check_database_health (Inr (6, 10))"]
  obtain r where r: "calculate_overall_health 1000 ?cs (check_database_health (Inr (6, 10))) = Inr r"
    and h: "sv_healthy (r_services r) = length (filter (\<lambda>s. chk_status s = ''healthy'') ?cs)"
    and t: "sv_total (r_services r) = length ?cs"
    and p: "sv_percentage (r_services r)
          = py_round2 (float64 (float64 (of_nat (sv_healthy (r_services r))
                                          / of_nat (sv_total (r_services r))) * 100))"
    and b: "0 \<le> sv_percentage (r_services r)" "sv_percentage (r_services r) \<le> 100"
    by blast
  have h2: "sv_healthy (r_services r) = 2" using h by (simp add: check_service_health_def)
  have t3: "sv_total (r_services r) = 3" using t by simp
  have k: "round_half_even (float64 (float64 (of_nat 2 / of_nat 3) * 100) * 100) = 6667"
    by code_simp
  have v: "float64 (6667 / 100) = 4691484174324859 / 70368744177664"
    by code_simp
  from p have e: "sv_percentage (r_services r) = float64 (6667 / 100)"
    unfolding h2 t3 py_round2_def k by simp
  have k2: "round_half_even (float64 (float64 (of_nat 23 / of_nat 160) * 100) * 100) = 1437"
    by code_simp
  have s: "services_percentage 23 160 = Inr (float64 (1437 / 100))"
    unfolding services_percentage_def py_round2_def k2 by simp
  have v2: "float64 (1437 / 100) = 8089590830664253 / 562949953421312"
    by code_simp
  from r h2 t3 e v b s v2 show ?thesis by auto
qed

text \<open>
  Against C3 as stated: on the empty result set the division raises
  \<open>ZeroDivisionError\<close>, in the expression itself, in the aggregation and in
  \<open>run_full_health_check\<close> over an empty registry; no percentage 0 is reported.
\<close>

theorem percentage_of_empty_counterexample:
  "services_percentage 0 0 = Inl ZeroDivisionError
   \<and> calculate_overall_health 1000 [] (check_database_health (Inr (6, 10))) = Inl ZeroDivisionError
   \<and> run_full_health_check healthy_env [] = Inl ZeroDivisionError"
  by (simp add: services_percentage_def calculate_overall_health_def run_full_health_check_def
        check_services_def healthy_env_def)

subsection \<open>C7: the recommendations\<close>

text \<open>
  Claim C7, with the order the code gives: for every list of results and every database
  health the recommendations are a function of the input and never empty. They are
  one message for each down service in the order of the results (worded CRITICAL for a
  critical service and Warning for any other; critical ones are not moved to the
  front), then one message if the database is not healthy, then the positive message
  if every result is healthy; if that leaves nothing, the single message that the
  system operates normally. When every service and the database are healthy, the list
  is the one positive message.
\<close>

theorem recommendations_shape:
  "generate_recommendations service_checks dbh \<noteq> []
   \<and> generate_recommendations service_checks dbh =
       (let recs = map down_message (filter (\<lambda>s. chk_status s = ''down'') service_checks)
                   @ (if db_status dbh \<noteq> ''healthy'' then [database_message] else [])
                   @ (if list_all (\<lambda>s. chk_status s = ''healthy'') service_checks
                      then [all_operational_message] else [])
        in if recs = [] then [operating_normally_message] else recs)
   \<and> down_message s = (if chk_critical s then critical_down_message s else warning_down_message s)
   \<and> (list_all (\<lambda>s. chk_status s = ''healthy'') service_checks \<and> db_status dbh = ''healthy''
        \<longrightarrow> generate_recommendations service_checks dbh = [all_operational_message])"
proof -
  have nodown: "filter (\<lambda>s. chk_status s = ''down'') service_checks = []"
    if "list_all (\<lambda>s. chk_status s = ''healthy'') service_checks"
    using that by (induction service_checks) auto
  show ?thesis
    using nodown
    by (auto simp: generate_recommendations_def Let_def all_pass_filter down_message_def)
qed

text \<open>One healthy service and a healthy database: the one positive message.\<close>

theorem recommendations_shape_witness:
  "generate_recommendations
     [check_service_health ''main_app'' \<lparr>cfg_url = ''http://localhost:5000'', cfg_critical = True\<rparr> (Inr 200)]
     (check_database_health (Inr (6, 10))) = [all_operational_message]
   \<and> generate_recommendations
     [check_service_health ''main_app'' \<lparr>cfg_url = ''http://localhost:5000'', cfg_critical = True\<rparr> (Inr 200)]
     (check_database_health (Inr (6, 10))) \<noteq> []"
  using recommendations_shape [of
     "[check_service_health ''main_app'' \<lparr>cfg_url = ''http://localhost:5000'', cfg_critical = True\<rparr> (Inr 200)]"
     "check_database_health (Inr (6, 10))"]
  by (simp add: check_service_health_def check_database_health_def)

text \<open>
  Against C7 as stated: the non-critical \<open>ai_service\<close> and the critical \<open>main_app\<close>
  are both down, in this order in the results; the Warning for \<open>ai_service\<close> comes
  first and the CRITICAL message for \<open>main_app\<close> second.
\<close>

theorem recommendations_order_counterexample:
  "generate_recommendations
     [check_service_health ''ai_service'' \<lparr>cfg_url = ''http://localhost:8006'', cfg_critical = False\<rparr>
        (Inl (Exception ''refused'')),
      check_service_health ''main_app'' \<lparr>cfg_url = ''http://localhost:5000'', cfg_critical = True\<rparr>
        (Inl (Exception ''refused''))]
     (check_database_health (Inr (6, 10)))
   = [marker_warning @ '' Warning: ai_service is down - some features unavailable'',
      marker_alarm @ '' CRITICAL: main_app is down - system functionality impaired'']"
  by (simp add: generate_recommendations_def check_service_health_def check_database_health_def
        down_message_def critical_down_message_def warning_down_message_def)

subsection \<open>C4: audited mutations\<close>

text \<open>
  Claim C4: \<open>set_feature_flag\<close>, and \<open>emergency_stop_platform\<close> on a registered
  platform, return normally whatever the audit database does, with the flag or the
  stop record stored; each makes one audit append with its action
  (\<open>feature_flag_changed\<close>, \<open>emergency_stop\<close>), which adds exactly this one row to the
  table when the INSERT runs and none otherwise; a failure of the append is logged by
  \<open>log_audit_action\<close> and does not reach the caller.
\<close>

theorem audited_mutations_best_effort:
  assumes "map_of (platforms s) platform_id = Some platform"
  shows "(\<exists>s'. set_feature_flag env pid feature enabled reason s = (None, s')
            \<and> feature_flags s' (pid @ '':'' @ feature)
                = Some \<lparr>fv_enabled = enabled, fv_set_at = utcnow env, fv_reason = reason\<rparr>
            \<and> audit_logs s' = audit_logs s @
                (if row_written (audit_write env)
                 then [\<lparr>a_actor_id = ''FANZDASH_CENTRAL'', a_action = ''feature_flag_changed'',
                        a_target_type = Some ''feature'', a_target_id = Some (pid @ '':'' @ feature),
                        a_metadata = FlagChange enabled reason, a_created_at = utcnow env\<rparr>]
                 else [])
            \<and> logger s' = logger s @
                (case write_failure (audit_write env) of None \<Rightarrow> [] | Some e \<Rightarrow> [audit_failed e]))
       \<and> (\<exists>s'. emergency_stop_platform env platform_id reason s = (None, s')
            \<and> emergency_stops s' platform_id
                = Some \<lparr>es_stopped_at = utcnow env, es_reason = reason, es_stopped_by = ''FANZDASH_CENTRAL''\<rparr>
            \<and> audit_logs s' = audit_logs s @
                (if row_written (audit_write env)
                 then [\<lparr>a_actor_id = ''FANZDASH_CENTRAL'', a_action = ''emergency_stop'',
                        a_target_type = Some ''platform'', a_target_id = Some platform_id,
                        a_metadata = StopReason reason, a_created_at = utcnow env\<rparr>]
                 else [])
            \<and> logger s' = logger s @
                (case write_failure (audit_write env) of None \<Rightarrow> [] | Some e \<Rightarrow> [audit_failed e])
                @ [Critical (marker_stop @ '' EMERGENCY STOP: '' @ p_name platform @ '' - '' @ reason)])"
proof -
  have flag: "\<exists>s'. set_feature_flag env pid feature enabled reason s = (None, s')
            \<and> feature_flags s' (pid @ '':'' @ feature)
                = Some \<lparr>fv_enabled = enabled, fv_set_at = utcnow env, fv_reason = reason\<rparr>
            \<and> audit_logs s' = audit_logs s @
                (if row_written (audit_write env)
                 then [\<lparr>a_actor_id = ''FANZDASH_CENTRAL'', a_action = ''feature_flag_changed'',
                        a_target_type = Some ''feature'', a_target_id = Some (pid @ '':'' @ feature),
                        a_metadata = FlagChange enabled reason, a_created_at = utcnow env\<rparr>]
                 else [])
            \<and> logger s' = logger s @
                (case write_failure (audit_write env) of None \<Rightarrow> [] | Some e \<Rightarrow> [audit_failed e])"
    by (simp add: set_feature_flag_def Let_def log_audit_action_keeps log_audit_action_table
          log_audit_action_logger)
  have stop: "\<exists>s'. emergency_stop_platform env platform_id reason s = (None, s')
            \<and> emergency_stops s' platform_id
                = Some \<lparr>es_stopped_at = utcnow env, es_reason = reason, es_stopped_by = ''FANZDASH_CENTRAL''\<rparr>
            \<and> audit_logs s' = audit_logs s @
                (if row_written (audit_write env)
                 then [\<lparr>a_actor_id = ''FANZDASH_CENTRAL'', a_action = ''emergency_stop'',
                        a_target_type = Some ''platform'', a_target_id = Some platform_id,
                        a_metadata = StopReason reason, a_created_at = utcnow env\<rparr>]
                 else [])
            \<and> logger s' = logger s @
                (case write_failure (audit_write env) of None \<Rightarrow> [] | Some e \<Rightarrow> [audit_failed e])
                @ [Critical (marker_stop @ '' EMERGENCY STOP: '' @ p_name platform @ '' - '' @ reason)]"
    using assms
    by (simp add: emergency_stop_platform_def Let_def log_audit_action_keeps log_audit_action_table
          log_audit_action_logger)
  from flag stop show ?thesis by blast
qed


text \<open>
  With the audit database refusing connections, both operations on \<open>fanzdash\<close> still
  return normally and store their record; the table stays empty and the failure is in
  the log.
\<close>

theorem audited_mutations_best_effort_witness:
  "(\<exists>s'. set_feature_flag audit_down_env ''fanzdash'' ''beta'' True ''breach'' init_state = (None, s')
       \<and> feature_flags s' ''fanzdash:beta''
           = Some \<lparr>fv_enabled = True, fv_set_at = 1000, fv_reason = ''breach''\<rparr>
       \<and> audit_logs s' = []
       \<and> logger s' = [audit_failed (Exception ''connection refused'')])
   \<and> (\<exists>s'. emergency_stop_platform audit_down_env ''fanzdash'' ''breach'' init_state = (None, s')
       \<and> emergency_stops s' ''fanzdash''
           = Some \<lparr>es_stopped_at = 1000, es_reason = ''breach'', es_stopped_by = ''FANZDASH_CENTRAL''\<rparr>
       \<and> audit_logs s' = []
       \<and> logger s' = [audit_failed (Exception ''connection refused''),
                       Critical (marker_stop @ '' EMERGENCY STOP: FanzDash Control - breach'')])"
proof -
  have reg: "map_of (platforms init_state) ''fanzdash''
      = Some (snd (new_platform ''fanzdash'' ''FanzDash Control'' ''http://localhost:3000'' True))"
    by (simp add: init_state_def new_platform_def)
  have env: "audit_write audit_down_env = ConnectFailed (Exception ''connection refused'')"
    "utcnow audit_down_env = 1000"
    by (simp_all add: audit_down_env_def healthy_env_def)
  have ini: "audit_logs init_state = []" "logger init_state = []"
    by (simp_all add: init_state_def)
  from audited_mutations_best_effort [OF reg, of audit_down_env "''fanzdash''" "''beta''" True "''breach''"]
  show ?thesis
    unfolding env ini by (simp add: new_platform_def)
qed


subsection \<open>C5: the emergency stop\<close>

text \<open>
  Claim C5, with the audit append as the code makes it: for a platform id that is not
  in \<open>platforms\<close>, \<open>emergency_stop_platform\<close> raises \<open>ValueError\<close> with the message
  \<open>Unknown platform: <id>\<close> and leaves the whole state as it was (the stops and the
  audit table included). For a registered id it returns normally, inserts or overwrites
  the stop record of that key and makes one audit append with the action
  \<open>emergency_stop\<close>: the row is added when the INSERT runs, and no row is added when the
  audit database fails before it.
\<close>

theorem emergency_stop_platform_cases:
  "(map_of (platforms s) platform_id = None \<longrightarrow>
      emergency_stop_platform env platform_id reason s
        = (Some (ValueError (''Unknown platform: '' @ platform_id)), s))
   \<and> (map_of (platforms s) platform_id \<noteq> None \<longrightarrow>
      (\<exists>s'. emergency_stop_platform env platform_id reason s = (None, s')
         \<and> emergency_stops s' = (emergency_stops s)(platform_id \<mapsto>
              \<lparr>es_stopped_at = utcnow env, es_reason = reason, es_stopped_by = ''FANZDASH_CENTRAL''\<rparr>)
         \<and> audit_logs s' = audit_logs s @
              (if row_written (audit_write env)
               then [\<lparr>a_actor_id = ''FANZDASH_CENTRAL'', a_action = ''emergency_stop'',
                      a_target_type = Some ''platform'', a_target_id = Some platform_id,
                      a_metadata = StopReason reason, a_created_at = utcnow env\<rparr>]
               else [])))"
  by (auto simp: emergency_stop_platform_def Let_def log_audit_action_keeps log_audit_action_table)


text \<open>
  The unknown id \<open>unknown-id\<close> is refused with the state unchanged; the registered
  \<open>fanzmeet\<close> is stopped, with one audit row.
\<close>

theorem emergency_stop_platform_cases_witness:
  "emergency_stop_platform healthy_env ''unknown-id'' ''x'' init_state
      = (Some (ValueError ''Unknown platform: unknown-id''), init_state)
   \<and> (\<exists>s'. emergency_stop_platform healthy_env ''fanzmeet'' ''x'' init_state = (None, s')
         \<and> emergency_stops s' = (emergency_stops init_state)(''fanzmeet'' \<mapsto>
              \<lparr>es_stopped_at = 1000, es_reason = ''x'', es_stopped_by = ''FANZDASH_CENTRAL''\<rparr>)
         \<and> audit_logs s' =
              [\<lparr>a_actor_id = ''FANZDASH_CENTRAL'', a_action = ''emergency_stop'',
                a_target_type = Some ''platform'', a_target_id = Some ''fanzmeet'',
                a_metadata = StopReason ''x'', a_created_at = 1000\<rparr>])"
proof -
  have unreg: "map_of (platforms init_state) ''unknown-id'' = None"
    by (simp add: init_state_def new_platform_def)
  have reg: "map_of (platforms init_state) ''fanzmeet'' \<noteq> None"
    by (simp add: init_state_def new_platform_def)
  have env: "audit_write healthy_env = WriteOk" "utcnow healthy_env = 1000"
    by (simp_all add: healthy_env_def)
  have ini: "audit_logs init_state = []" by (simp add: init_state_def)
  from emergency_stop_platform_cases [of init_state "''unknown-id''" healthy_env "''x''"] unreg
  have a: "emergency_stop_platform healthy_env ''unknown-id'' ''x'' init_state
      = (Some (ValueError ''Unknown platform: unknown-id''), init_state)" by simp
  from emergency_stop_platform_cases [of init_state "''fanzmeet''" healthy_env "''x''"] reg
  have b: "\<exists>s'. emergency_stop_platform healthy_env ''fanzmeet'' ''x'' init_state = (None, s')
         \<and> emergency_stops s' = (emergency_stops init_state)(''fanzmeet'' \<mapsto>
              \<lparr>es_stopped_at = 1000, es_reason = ''x'', es_stopped_by = ''FANZDASH_CENTRAL''\<rparr>)
         \<and> audit_logs s' =
              [\<lparr>a_actor_id = ''FANZDASH_CENTRAL'', a_action = ''emergency_stop'',
                a_target_type = Some ''platform'', a_target_id = Some ''fanzmeet'',
                a_metadata = StopReason ''x'', a_created_at = 1000\<rparr>]"
    unfolding env ini by simp
  from a b show ?thesis by blast
qed


text \<open>
  Against C5 as stated: \<open>fanzdash\<close> is registered and the audit database refuses
  connections; the stop is recorded and the call returns normally, but no audit entry
  is written.
\<close>

theorem emergency_stop_audit_counterexample:
  "map_of (platforms init_state) ''fanzdash'' \<noteq> None
   \<and> fst (emergency_stop_platform audit_down_env ''fanzdash'' ''breach'' init_state) = None
   \<and> emergency_stops (snd (emergency_stop_platform audit_down_env ''fanzdash'' ''breach'' init_state))
        ''fanzdash''
       = Some \<lparr>es_stopped_at = 1000, es_reason = ''breach'', es_stopped_by = ''FANZDASH_CENTRAL''\<rparr>
   \<and> audit_logs (snd (emergency_stop_platform audit_down_env ''fanzdash'' ''breach'' init_state)) = []"
  by (simp add: emergency_stop_platform_def Let_def log_audit_action_keeps log_audit_action_table
        init_state_def new_platform_def audit_down_env_def healthy_env_def)


subsection \<open>C6: feature flags of unregistered platforms\<close>

text \<open>
  Claim C6 says that \<open>set_feature_flag\<close> surfaces an unknown-platform error for a
  platform id that is not registered. The code does not: \<open>unknown-id\<close> is not in
  \<open>platforms\<close>, and \<open>set_feature_flag\<close> returns normally and stores the flag under
  \<open>unknown-id:beta\<close>. (\<open>emergency_stop_platform\<close> makes the check that this function
  lacks.)
\<close>

theorem set_feature_flag_unknown_platform:
  "map_of (platforms init_state) ''unknown-id'' = None
   \<and> fst (set_feature_flag healthy_env ''unknown-id'' ''beta'' True ''trial'' init_state) = None
   \<and> feature_flags (snd (set_feature_flag healthy_env ''unknown-id'' ''beta'' True ''trial'' init_state))
        ''unknown-id:beta''
       = Some \<lparr>fv_enabled = True, fv_set_at = 1000, fv_reason = ''trial''\<rparr>"
  by (simp add: set_feature_flag_def Let_def log_audit_action_keeps init_state_def new_platform_def
        healthy_env_def)


text \<open>In general \<open>set_feature_flag\<close> never raises and never reads the registry.\<close>

lemma set_feature_flag_unchecked:
  "fst (set_feature_flag env platform_id feature enabled reason s) = None
   \<and> feature_flags (snd (set_feature_flag env platform_id feature enabled reason s))
       = (feature_flags s)(platform_id @ '':'' @ feature \<mapsto>
            \<lparr>fv_enabled = enabled, fv_set_at = utcnow env, fv_reason = reason\<rparr>)
   \<and> platforms (snd (set_feature_flag env platform_id feature enabled reason s)) = platforms s"
  by (simp add: set_feature_flag_def Let_def log_audit_action_keeps)


subsection \<open>C8: the critical issues\<close>

text \<open>
  Claim C8, for the runs in which \<open>run_ecosystem_health_check\<close> returns a report. The
  nested \<open>run_full_health_check\<close> is called after the probes and outside any \<open>try\<close>:
  when it raises, the health check raises the same exception and there is no report.
  When it returns, the health check returns a report, and for every critical platform
  whose probe did not answer 200 the report's \<open>critical_issues\<close> holds its description:
  \<open><name> is degraded\<close> for another response code, \<open><name> is down: <error>\<close> with
  the whole text of the exception (not shortened) for a failed request; each of the two
  makes the \<open>ecosystem_status\<close> \<open>critical\<close>.
\<close>

theorem critical_issues_complete:
  assumes "(platform_id, platform) \<in> set (platforms s)"
    and "p_critical platform"
  shows "(\<forall>e. run_full_health_check env (system_integration_services s) = Inl e \<longrightarrow>
            fst (run_ecosystem_health_check env s) = Inl e)
     \<and> (\<forall>t. run_full_health_check env (system_integration_services s) = Inr t \<longrightarrow>
          (\<exists>report s'. run_ecosystem_health_check env s = (Inr report, s')
            \<and> (\<forall>code. http_get env (p_url platform @ ''/health'') = Inr code \<longrightarrow> code \<noteq> 200 \<longrightarrow>
                  (p_name platform @ '' is degraded'') \<in> set (hr_critical_issues report)
                  \<and> hr_ecosystem_status report = ''critical'')
            \<and> (\<forall>e. http_get env (p_url platform @ ''/health'') = Inl e \<longrightarrow>
                  (p_name platform @ '' is down: '' @ exn_str e) \<in> set (hr_critical_issues report)
                  \<and> hr_ecosystem_status report = ''critical'')))"
proof -
  have ok: "\<exists>report s'. run_ecosystem_health_check env s = (Inr report, s')
            \<and> (\<forall>code. http_get env (p_url platform @ ''/health'') = Inr code \<longrightarrow> code \<noteq> 200 \<longrightarrow>
                  (p_name platform @ '' is degraded'') \<in> set (hr_critical_issues report)
                  \<and> hr_ecosystem_status report = ''critical'')
            \<and> (\<forall>e. http_get env (p_url platform @ ''/health'') = Inl e \<longrightarrow>
                  (p_name platform @ '' is down: '' @ exn_str e) \<in> set (hr_critical_issues report)
                  \<and> hr_ecosystem_status report = ''critical'')"
    if t: "run_full_health_check env (system_integration_services s) = Inr t" for t
  proof -
    from run_ecosystem_health_check_report [OF t]
    obtain report s' where b: "run_ecosystem_health_check env s = (Inr report, s')"
       "hr_critical_issues report = concat (map (\<lambda>(pid, p). snd (check_platform env p)) (platforms s))"
       "hr_ecosystem_status report = (if hr_critical_issues report = [] then ''healthy'' else ''critical'')"
      by blast
    have mem: "i \<in> set (hr_critical_issues report)" if "i \<in> set (snd (check_platform env platform))" for i
      unfolding b(2) using issue_of_platform [OF assms(1) that] .
    have crit: "hr_ecosystem_status report = ''critical''" if "i \<in> set (hr_critical_issues report)" for i
      using that b(3) by auto
    have deg: "(p_name platform @ '' is degraded'') \<in> set (snd (check_platform env platform))"
      if "http_get env (p_url platform @ ''/health'') = Inr code" "code \<noteq> 200" for code
      using that assms(2) by (simp add: check_platform_def)
    have down: "(p_name platform @ '' is down: '' @ exn_str e) \<in> set (snd (check_platform env platform))"
      if "http_get env (p_url platform @ ''/health'') = Inl e" for e
      using that assms(2) by (simp add: check_platform_def)
    show ?thesis
      using b(1) mem crit deg down by blast
  qed
  have bad: "fst (run_ecosystem_health_check env s) = Inl e"
    if "run_full_health_check env (system_integration_services s) = Inl e" for e
    using that by (rule run_ecosystem_health_check_raises)
  from ok bad show ?thesis by blast
qed


text \<open>
  The initial platforms with FanzFinance OS timing out, and with FanzDash Control
  answering 503: a report with the description. With \<open>init_db\<close> failing: the exception
  and no report.
\<close>

theorem critical_issues_complete_witness:
  "(\<exists>report s'. run_ecosystem_health_check outage_env init_state = (Inr report, s')
      \<and> ''FanzFinance OS is down: timeout'' \<in> set (hr_critical_issues report)
      \<and> hr_ecosystem_status report = ''critical'')
   \<and> (\<exists>report s'. run_ecosystem_health_check degraded_env init_state = (Inr report, s')
      \<and> ''FanzDash Control is degraded'' \<in> set (hr_critical_issues report)
      \<and> hr_ecosystem_status report = ''critical'')
   \<and> fst (run_ecosystem_health_check pool_down_env init_state) = Inl (Exception ''connection refused'')"
proof -
  have "\<exists>t. run_full_health_check outage_env (system_integration_services init_state) = Inr t"
    by (rule run_full_health_check_returns)
       (simp_all add: outage_env_def healthy_env_def init_state_def services_def)
  then obtain t where t: "run_full_health_check outage_env (system_integration_services init_state) = Inr t"
    by blast
  have "\<exists>t. run_full_health_check degraded_env (system_integration_services init_state) = Inr t"
    by (rule run_full_health_check_returns)
       (simp_all add: degraded_env_def healthy_env_def init_state_def services_def)
  then obtain u where u: "run_full_health_check degraded_env (system_integration_services init_state) = Inr u"
    by blast
  have v: "run_full_health_check pool_down_env (system_integration_services init_state)
          = Inl (Exception ''connection refused'')"
    by (simp add: run_full_health_check_def pool_down_env_def healthy_env_def)
  let ?finance = "snd (new_platform ''fanzfinance'' ''FanzFinance OS'' ''http://localhost:8010'' True)"
  let ?dash = "snd (new_platform ''fanzdash'' ''FanzDash Control'' ''http://localhost:3000'' True)"
  have m1: "(''fanzfinance'', ?finance) \<in> set (platforms init_state)"
    by (simp add: init_state_def new_platform_def)
  have m2: "(''fanzdash'', ?dash) \<in> set (platforms init_state)"
    by (simp add: init_state_def new_platform_def)
  have c1: "p_critical ?finance" and c2: "p_critical ?dash"
    by (simp_all add: new_platform_def)
  have g1: "http_get outage_env (p_url ?finance @ ''/health'') = Inl (Exception ''timeout'')"
    by (simp add: new_platform_def outage_env_def healthy_env_def)
  have g2: "http_get degraded_env (p_url ?dash @ ''/health'') = Inr 503"
    by (simp add: new_platform_def degraded_env_def healthy_env_def)
  from critical_issues_complete [OF m1 c1, of outage_env] t g1
  have a: "\<exists>report s'. run_ecosystem_health_check outage_env init_state = (Inr report, s')
      \<and> ''FanzFinance OS is down: timeout'' \<in> set (hr_critical_issues report)
      \<and> hr_ecosystem_status report = ''critical''"
    by (simp add: new_platform_def)
  from critical_issues_complete [OF m2 c2, of degraded_env] u g2
  have b: "\<exists>report s'. run_ecosystem_health_check degraded_env init_state = (Inr report, s')
      \<and> ''FanzDash Control is degraded'' \<in> set (hr_critical_issues report)
      \<and> hr_ecosystem_status report = ''critical''"
    by (simp add: new_platform_def)
  from critical_issues_complete [OF m1 c1, of pool_down_env] v
  have c: "fst (run_ecosystem_health_check pool_down_env init_state) = Inl (Exception ''connection refused'')"
    by blast
  from a b c show ?thesis by blast
qed


text \<open>
  Against C8 as stated: FanzFinance OS is critical and times out, so the probes leave
  it \<open>down\<close>; \<open>init_db\<close> fails in the TaskSpark check that follows, and the health
  check raises: there is a critical platform that is down, and no report, no
  \<open>critical_issues\<close> and no status \<open>critical\<close>.
\<close>

theorem critical_issues_no_report_counterexample:
  "http_get outage_pool_down_env ''http://localhost:8010/health'' = Inl (Exception ''timeout'')
   \<and> map (\<lambda>(k, p). (k, p_critical p, p_status p))
        (platforms (snd (run_ecosystem_health_check outage_pool_down_env init_state)))
       = [(''fanzdash'', True, ''healthy''), (''fanzfinance'', True, ''down''),
          (''fanzelitetube'', True, ''healthy''), (''fanzmeet'', True, ''healthy''),
          (''fanzcommerce'', True, ''healthy''), (''fanzhubvault'', True, ''healthy''),
          (''fanzprotect'', True, ''healthy''), (''fanzsocial'', False, ''healthy'')]
   \<and> fst (run_ecosystem_health_check outage_pool_down_env init_state)
       = Inl (Exception ''connection refused'')"
proof -
  have "run_full_health_check outage_pool_down_env (system_integration_services init_state)
          = Inl (Exception ''connection refused'')"
    by (simp add: run_full_health_check_def outage_pool_down_env_def outage_env_def healthy_env_def)
  then have r: "fst (run_ecosystem_health_check outage_pool_down_env init_state)
          = Inl (Exception ''connection refused'')"
    by (rule run_ecosystem_health_check_raises)
  have p: "map (\<lambda>(k, p). (k, p_critical p, p_status p))
        (platforms (snd (run_ecosystem_health_check outage_pool_down_env init_state)))
       = [(''fanzdash'', True, ''healthy''), (''fanzfinance'', True, ''down''),
          (''fanzelitetube'', True, ''healthy''), (''fanzmeet'', True, ''healthy''),
          (''fanzcommerce'', True, ''healthy''), (''fanzhubvault'', True, ''healthy''),
          (''fanzprotect'', True, ''healthy''), (''fanzsocial'', False, ''healthy'')]"
    unfolding run_ecosystem_health_check_platforms
    by (simp add: init_state_def new_platform_def outage_pool_down_env_def outage_env_def
          healthy_env_def check_platform_def)
  have g: "http_get outage_pool_down_env ''http://localhost:8010/health'' = Inl (Exception ''timeout'')"
    by (simp add: outage_pool_down_env_def outage_env_def healthy_env_def)
  from g p r show ?thesis by blast
qed


subsection \<open>C9: the monitor loops\<close>

text \<open>
  Claim C9, for the three monitor loops. No exception leaves an iteration of
  \<open>continuous_health_monitoring\<close>, so the loop always goes on to its next iteration,
  from the state the iteration left: in any environments the first \<open>n\<close> iterations
  all run, start \<open>n\<close> health checks and sleep \<open>n\<close> times 30 seconds. Every iteration,
  failing or not, probes every platform: its platforms are those the probes of
  \<open>run_ecosystem_health_check\<close> leave. When the health check raises, the iteration is
  the state the check left, the logged error and the sleep; when it returns a report,
  the iteration is the alert (if there are critical issues) and the sleep.
  \<open>payment_system_monitoring\<close> and \<open>content_moderation_monitoring\<close> have the same
  shape; their checks are constants in the source (every processor healthy, 45 pending
  reviews), so no exception is raised in them, nothing is audited, and every iteration
  is the sleep of 60 or 120 seconds followed by the next iteration.
\<close>

theorem monitoring_survives_failures:
  "fst (continuous_health_monitoring n envs s) = None
   \<and> checks_started (logger (snd (continuous_health_monitoring n envs s))) = checks_started (logger s) + n
   \<and> slept (snd (continuous_health_monitoring n envs s)) = slept s + 30 * n
   \<and> continuous_health_monitoring (Suc n) envs s
       = continuous_health_monitoring n (\<lambda>k. envs (Suc k)) (snd (monitoring_cycle (envs 0) s))
   \<and> platforms (snd (monitoring_cycle env s)) = fst (check_platforms env (platforms s))
   \<and> (\<forall>e s1. run_ecosystem_health_check env s = (Inl e, s1) \<longrightarrow>
        monitoring_cycle env s
          = (None, s1\<lparr>logger := logger s1 @ [monitoring_error e], slept := slept s1 + 30\<rparr>))
   \<and> (\<forall>report s1. run_ecosystem_health_check env s = (Inr report, s1) \<longrightarrow>
        monitoring_cycle env s
          = (None, (if hr_critical_issues report \<noteq> []
                    then trigger_critical_alert env (hr_critical_issues report) s1 else s1)
                   \<lparr>slept := slept s1 + 30\<rparr>))
   \<and> payment_cycle env s = (None, s\<lparr>slept := slept s + 60\<rparr>)
   \<and> payment_system_monitoring (Suc n) envs s
       = payment_system_monitoring n (\<lambda>k. envs (Suc k)) (snd (payment_cycle (envs 0) s))
   \<and> payment_system_monitoring n envs s = (None, s\<lparr>slept := slept s + 60 * n\<rparr>)
   \<and> moderation_cycle env s = (None, s\<lparr>slept := slept s + 120\<rparr>)
   \<and> content_moderation_monitoring (Suc n) envs s
       = content_moderation_monitoring n (\<lambda>k. envs (Suc k)) (snd (moderation_cycle (envs 0) s))
   \<and> content_moderation_monitoring n envs s = (None, s\<lparr>slept := slept s + 120 * n\<rparr>)"
proof -
  have pay: "payment_system_monitoring (Suc n) envs s
       = payment_system_monitoring n (\<lambda>k. envs (Suc k)) (snd (payment_cycle (envs 0) s))"
    by (simp add: payment_cycle_eq)
  have mod: "content_moderation_monitoring (Suc n) envs s
       = content_moderation_monitoring n (\<lambda>k. envs (Suc k)) (snd (moderation_cycle (envs 0) s))"
    by (simp add: moderation_cycle_eq)
  show ?thesis
    using continuous_health_monitoring_effects [of n envs s]
      continuous_health_monitoring_unroll [of n envs s]
      monitoring_cycle_platforms [of env s]
      monitoring_cycle_failed [of env s] monitoring_cycle_reported [of env s]
      payment_cycle_eq [of env s] payment_system_monitoring_eq [of n envs s] pay
      moderation_cycle_eq [of env s] content_moderation_monitoring_eq [of n envs s] mod
    by (intro conjI allI impI) simp_all
qed


text \<open>
  Two iterations from the initial state. In the first FanzFinance OS times out and
  \<open>init_db\<close> fails, so the probes run and the health check raises: the iteration logs
  the error and leaves FanzFinance OS \<open>down\<close>. The second iteration runs in a healthy
  environment: its probes find every platform \<open>healthy\<close> again. Three iterations of the
  other two loops sleep 180 and 360 seconds.
\<close>

theorem monitoring_survives_failures_witness:
  "(\<exists>s1. run_ecosystem_health_check outage_pool_down_env init_state
            = (Inl (Exception ''connection refused''), s1)
      \<and> monitoring_cycle outage_pool_down_env init_state
          = (None, s1\<lparr>logger := logger s1 @ [monitoring_error (Exception ''connection refused'')],
                       slept := slept s1 + 30\<rparr>))
   \<and> (\<exists>report s1. run_ecosystem_health_check healthy_env init_state = (Inr report, s1)
      \<and> hr_critical_issues report = []
      \<and> monitoring_cycle healthy_env init_state = (None, s1\<lparr>slept := slept s1 + 30\<rparr>))
   \<and> map (\<lambda>(k, p). p_status p) (platforms (snd (monitoring_cycle outage_pool_down_env init_state)))
       = [''healthy'', ''down'', ''healthy'', ''healthy'', ''healthy'', ''healthy'', ''healthy'',
          ''healthy'']
   \<and> fst (continuous_health_monitoring (Suc (Suc 0))
        (\<lambda>k. if k = 0 then outage_pool_down_env else healthy_env) init_state) = None
   \<and> map (\<lambda>(k, p). p_status p) (platforms (snd (continuous_health_monitoring (Suc (Suc 0))
        (\<lambda>k. if k = 0 then outage_pool_down_env else healthy_env) init_state)))
       = [''healthy'', ''healthy'', ''healthy'', ''healthy'', ''healthy'', ''healthy'', ''healthy'',
          ''healthy'']
   \<and> checks_started (logger (snd (continuous_health_monitoring (Suc (Suc 0))
        (\<lambda>k. if k = 0 then outage_pool_down_env else healthy_env) init_state))) = 2
   \<and> slept (snd (continuous_health_monitoring (Suc (Suc 0))
        (\<lambda>k. if k = 0 then outage_pool_down_env else healthy_env) init_state)) = 60
   \<and> payment_system_monitoring 3 (\<lambda>k. healthy_env) init_state = (None, init_state\<lparr>slept := 180\<rparr>)
   \<and> content_moderation_monitoring 3 (\<lambda>k. healthy_env) init_state
       = (None, init_state\<lparr>slept := 360\<rparr>)"
proof -
  let ?envs = "\<lambda>k::nat. if k = 0 then outage_pool_down_env else healthy_env"
  let ?c1 = "snd (monitoring_cycle outage_pool_down_env init_state)"
  have "run_full_health_check outage_pool_down_env (system_integration_services init_state)
          = Inl (Exception ''connection refused'')"
    by (simp add: run_full_health_check_def outage_pool_down_env_def outage_env_def healthy_env_def)
  then have "fst (run_ecosystem_health_check outage_pool_down_env init_state)
          = Inl (Exception ''connection refused'')"
    by (rule run_ecosystem_health_check_raises)
  then obtain s1 where s1: "run_ecosystem_health_check outage_pool_down_env init_state
            = (Inl (Exception ''connection refused''), s1)"
    by (cases "run_ecosystem_health_check outage_pool_down_env init_state") simp
  have "\<exists>t. run_full_health_check healthy_env (system_integration_services init_state) = Inr t"
    by (rule run_full_health_check_returns)
       (simp_all add: healthy_env_def init_state_def services_def)
  then obtain t where
    t: "run_full_health_check healthy_env (system_integration_services init_state) = Inr t"
    by blast
  from run_ecosystem_health_check_report [OF t]
  obtain report s2 where r: "run_ecosystem_health_check healthy_env init_state = (Inr report, s2)"
    and i: "hr_critical_issues report
       = concat (map (\<lambda>(pid, p). snd (check_platform healthy_env p)) (platforms init_state))"
    by blast
  have i0: "hr_critical_issues report = []"
    unfolding i by (simp add: init_state_def new_platform_def healthy_env_def check_platform_def)
  have ini: "checks_started (logger init_state) = 0" "slept init_state = 0"
    by (simp_all add: init_state_def checks_started_def)
  note w0 = monitoring_survives_failures [of "Suc (Suc 0)" ?envs init_state outage_pool_down_env]
  note w1 = monitoring_survives_failures [of "Suc 0" ?envs init_state healthy_env]
  note w2 = monitoring_survives_failures [of 0 "\<lambda>k. ?envs (Suc k)" ?c1 healthy_env]
  note w3 = monitoring_survives_failures [of 3 "\<lambda>k. healthy_env" init_state healthy_env]
  have a: "monitoring_cycle outage_pool_down_env init_state
          = (None, s1\<lparr>logger := logger s1 @ [monitoring_error (Exception ''connection refused'')],
                       slept := slept s1 + 30\<rparr>)"
    using w0 s1 by blast
  have b: "monitoring_cycle healthy_env init_state = (None, s2\<lparr>slept := slept s2 + 30\<rparr>)"
    using w1 r i0 by simp
  have p1: "platforms ?c1 = fst (check_platforms outage_pool_down_env (platforms init_state))"
    using w0 by blast
  have st1: "map (\<lambda>(k, p). p_status p) (platforms ?c1)
       = [''healthy'', ''down'', ''healthy'', ''healthy'', ''healthy'', ''healthy'', ''healthy'',
          ''healthy'']"
    unfolding p1
    by (simp add: init_state_def new_platform_def outage_pool_down_env_def outage_env_def
          healthy_env_def check_platform_def)
  have u: "continuous_health_monitoring (Suc (Suc 0)) ?envs init_state
       = (None, snd (monitoring_cycle healthy_env ?c1))"
    using w1 w2 by simp
  have p2: "platforms (snd (monitoring_cycle healthy_env ?c1))
       = fst (check_platforms healthy_env (platforms ?c1))"
    using w2 by blast
  have st2: "map (\<lambda>(k, p). p_status p) (platforms (snd (monitoring_cycle healthy_env ?c1)))
       = [''healthy'', ''healthy'', ''healthy'', ''healthy'', ''healthy'', ''healthy'', ''healthy'',
          ''healthy'']"
    unfolding p2 p1
    by (simp add: init_state_def new_platform_def outage_pool_down_env_def outage_env_def
          healthy_env_def check_platform_def)
  have tot: "checks_started (logger (snd (continuous_health_monitoring (Suc (Suc 0)) ?envs init_state))) = 2"
    "slept (snd (continuous_health_monitoring (Suc (Suc 0)) ?envs init_state)) = 60"
    using w0 ini by simp_all
  have pm: "payment_system_monitoring 3 (\<lambda>k. healthy_env) init_state = (None, init_state\<lparr>slept := 180\<rparr>)"
    "content_moderation_monitoring 3 (\<lambda>k. healthy_env) init_state
       = (None, init_state\<lparr>slept := 360\<rparr>)"
    using w3 ini by simp_all
  show ?thesis
    using s1 a r i0 b st1 st2 tot pm unfolding u by simp
qed


subsection \<open>C10: reading the audit log\<close>

text \<open>
  Claim C10: when connecting to the audit database or the query (or closing the
  connection) fails, \<open>get_recent_audit_logs\<close> returns the empty list; and if the health
  check returns its report, \<open>get_ecosystem_dashboard_data\<close> still returns the
  dashboard, with that report, the feature flags, the emergency stops and the payment
  processors, and with an empty \<open>recent_audit_logs\<close>.
\<close>

theorem audit_read_failure_degrades:
  assumes "audit_read env \<noteq> ReadOk"
  shows "fst (get_recent_audit_logs env limit s) = []
     \<and> (\<forall>report s1. run_ecosystem_health_check env s = (Inr report, s1) \<longrightarrow>
          (\<exists>d s2. get_ecosystem_dashboard_data env s = (Inr d, s2)
             \<and> dd_recent_audit_logs d = []
             \<and> dd_ecosystem_health d = report
             \<and> dd_feature_flags d = feature_flags s
             \<and> dd_emergency_stops d = emergency_stops s
             \<and> dd_payment_processors d = payment_processors s))"
proof -
  have a: "fst (get_recent_audit_logs env limit s') = []" for limit s'
    using assms by (cases "audit_read env") (simp_all add: get_recent_audit_logs_def)
  have b: "\<exists>d s2. get_ecosystem_dashboard_data env s = (Inr d, s2)
             \<and> dd_recent_audit_logs d = []
             \<and> dd_ecosystem_health d = report
             \<and> dd_feature_flags d = feature_flags s
             \<and> dd_emergency_stops d = emergency_stops s
             \<and> dd_payment_processors d = payment_processors s"
    if r: "run_ecosystem_health_check env s = (Inr report, s1)" for report s1
  proof -
    from run_ecosystem_health_check_keeps(1,2,3) [of env s] r
    have k: "feature_flags s1 = feature_flags s" "emergency_stops s1 = emergency_stops s"
      "payment_processors s1 = payment_processors s" by simp_all
    obtain logs s2 where g: "get_recent_audit_logs env 50 s1 = (logs, s2)"
      by (cases "get_recent_audit_logs env 50 s1")
    with a [of 50 s1] have "logs = []" by simp
    with r g k show ?thesis by (simp add: get_ecosystem_dashboard_data_def)
  qed
  from a b show ?thesis by blast
qed


text \<open>The dashboard of the initial state with the audit database refusing connections.\<close>

theorem audit_read_failure_degrades_witness:
  "fst (get_recent_audit_logs audit_down_env 50 init_state) = []
   \<and> (\<exists>report s1 d s2. run_ecosystem_health_check audit_down_env init_state = (Inr report, s1)
        \<and> get_ecosystem_dashboard_data audit_down_env init_state = (Inr d, s2)
        \<and> dd_recent_audit_logs d = []
        \<and> dd_ecosystem_health d = report
        \<and> dd_feature_flags d = feature_flags init_state
        \<and> dd_emergency_stops d = emergency_stops init_state)"
proof -
  have f: "audit_read audit_down_env \<noteq> ReadOk"
    by (simp add: audit_down_env_def healthy_env_def)
  have "\<exists>t. run_full_health_check audit_down_env (system_integration_services init_state) = Inr t"
    by (rule run_full_health_check_returns)
       (simp_all add: audit_down_env_def healthy_env_def init_state_def services_def)
  then obtain t where
    t: "run_full_health_check audit_down_env (system_integration_services init_state) = Inr t"
    by blast
  from run_ecosystem_health_check_report [OF t]
  obtain report s1 where r: "run_ecosystem_health_check audit_down_env init_state = (Inr report, s1)"
    by blast
  from audit_read_failure_degrades [OF f, of 50 init_state] r
  show ?thesis by blast
qed


end
